theory Spec2Isabelle
  imports Complex_Main "HOL-Library.Word"
begin

unbundle bit_operations_syntax

section \<open>The colour utilities of the Magic Number palette generator\<close>

text \<open>
  A shallow embedding of the colour utility functions that \<^verbatim>\<open>src/App.tsx\<close> carries
  after the \<^verbatim>\<open>App\<close> component: the grade table, the hex/RGB/HSL conversions, the
  WCAG luminance and contrast ratio, the classification of a luminance into a grade, and
  the synthesis of the twelve-entry palette.

  Conventions of the model.
  \<^item> A JavaScript \<^verbatim>\<open>number\<close> that holds a fraction (luminance, saturation, lightness)
    is a \<^typ>\<open>real\<close>. In the colour conversions, the luminance and the synthesis the
    arithmetic is exact: the rounding of IEEE doubles is not modelled there. \<^verbatim>\<open>Math.pow\<close>
    is \<open>powr\<close>, which agrees with it on a non-negative base and a positive exponent.
  \<^item> The grade of a luminance depends on how doubles round: whether a luminance lies within
    a band, and which of two differences is the smaller. So the numbers of the grade table
    are the doubles that their literals denote, and the sum, the quotient and the difference
    that \<^verbatim>\<open>determineGrade\<close> computes are rounded to the nearest double (\<open>binary64\<close>).
    The values \<^verbatim>\<open>NaN\<close> and \<^verbatim>\<open>Infinity\<close> are not modelled.
  \<^item> A \<^verbatim>\<open>number\<close> that holds a colour channel or a grade is an \<^typ>\<open>int\<close>: the
    channels come from \<^verbatim>\<open>parseInt\<close> and \<^verbatim>\<open>Math.round\<close>, the grades from the table.
  \<^item> The bitwise operators work on 32-bit integers, modelled by \<^typ>\<open>32 word\<close>.
  \<^item> A string is a \<^typ>\<open>string\<close>; \<^verbatim>\<open>null\<close> is \<open>None\<close>. A field \<open>f\<close> of an object
    type \<open>t\<close> is the record field \<open>t_f\<close>. The loop variable \<^verbatim>\<open>range\<close> of the source is
    written \<open>rng\<close>.
  \<^item> A loop is a recursive function named after what it computes (\<open>exactLoop\<close>,
    \<open>closestLoop\<close>, \<open>neighborLoop\<close>, \<open>searchLoop\<close>, \<open>paletteLoop\<close>); the function of
    the source is the definition that starts it.
\<close>

subsection \<open>Data\<close>

record luminance_range =
  range_grade :: int
  range_min :: real
  range_max :: real

record rgb =
  rgb_r :: int
  rgb_g :: int
  rgb_b :: int

record hsl =
  hsl_h :: real
  hsl_s :: real
  hsl_l :: real

text \<open>
  The result of \<^verbatim>\<open>determineGrade\<close>. The fields \<^verbatim>\<open>lowerGrade\<close> and \<^verbatim>\<open>higherGrade\<close>
  are optional and nullable: \<open>None\<close> is an absent field, \<open>Some None\<close> is \<^verbatim>\<open>null\<close>.
\<close>

record grade_info =
  info_grade :: int
  info_exact :: bool
  info_lowerGrade :: "int option option"
  info_higherGrade :: "int option option"

record palette_entry =
  entry_grade :: int
  entry_color :: string
  entry_luminance :: real
  entry_isInputColor :: bool

record palette_result =
  result_palette :: "palette_entry list"
  result_inputGradeInfo :: grade_info

text \<open>
  The double nearest to a real number, a tie going to the even significand (the rounding of
  IEEE 754 binary64, which JavaScript applies to a numeric literal and to the result of an
  arithmetic operation). \<open>ulpSearch\<close> scales the magnitude into \<open>[1, 2)\<close> and returns the
  distance between neighbouring doubles there, starting from \<open>2 ^ -52\<close> for \<open>[1, 2)\<close>; below
  the normal range the distance is \<open>2 ^ -1074\<close>. A result beyond the largest double would be
  \<^verbatim>\<open>Infinity\<close>, which is not modelled.
\<close>

definition roundHalfEven :: "real \<Rightarrow> int" where
  "roundHalfEven y =
    (let f = \<lfloor>y\<rfloor>; d = y - of_int f
     in if d < 1 / 2 then f else if d > 1 / 2 then f + 1 else if even f then f else f + 1)"

fun ulpSearch :: "nat \<Rightarrow> real \<Rightarrow> real \<Rightarrow> real" where
  "ulpSearch fuel x u =
    (if fuel = 0 then u
     else if 2 \<le> x then ulpSearch (fuel - 1) (x / 2) (2 * u)
     else if x < 1 then ulpSearch (fuel - 1) (2 * x) (u / 2)
     else u)"

declare ulpSearch.simps [simp del]

definition binary64 :: "real \<Rightarrow> real" where
  "binary64 x =
    (if x = 0 then 0
     else (let u = max (ulpSearch 1100 \<bar>x\<bar> (1 / 2 ^ 52)) (1 / 2 ^ 1074)
           in of_int (roundHalfEven (x / u)) * u))"

definition LUMINANCE_RANGES :: "luminance_range list" where
  "LUMINANCE_RANGES =
    [\<lparr>range_grade = 0, range_min = binary64 1.000,
      range_max = binary64 1.000\<rparr>,
     \<lparr>range_grade = 5, range_min = binary64 0.850,
      range_max = binary64 0.930\<rparr>,
     \<lparr>range_grade = 10, range_min = binary64 0.750,
      range_max = binary64 0.820\<rparr>,
     \<lparr>range_grade = 20, range_min = binary64 0.500,
      range_max = binary64 0.650\<rparr>,
     \<lparr>range_grade = 30, range_min = binary64 0.350,
      range_max = binary64 0.450\<rparr>,
     \<lparr>range_grade = 40, range_min = binary64 0.225,
      range_max = binary64 0.300\<rparr>,
     \<lparr>range_grade = 50, range_min = binary64 0.175,
      range_max = binary64 0.183\<rparr>,
     \<lparr>range_grade = 60, range_min = binary64 0.100,
      range_max = binary64 0.125\<rparr>,
     \<lparr>range_grade = 70, range_min = binary64 0.050,
      range_max = binary64 0.070\<rparr>,
     \<lparr>range_grade = 80, range_min = binary64 0.020,
      range_max = binary64 0.040\<rparr>,
     \<lparr>range_grade = 90, range_min = binary64 0.005,
      range_max = binary64 0.015\<rparr>,
     \<lparr>range_grade = 100, range_min = binary64 0.000,
      range_max = binary64 0.000\<rparr>]"

definition GRADES :: "int list" where
  "GRADES = [0, 5, 10, 20, 30, 40, 50, 60, 70, 80, 90, 100]"

subsection \<open>Strings and numbers of the host language\<close>

text \<open>
  \<^verbatim>\<open>String.prototype.toUpperCase\<close>, on the ASCII characters that reach it here (the
  digits of \<^verbatim>\<open>toString(16)\<close> and an input that \<^verbatim>\<open>hexToRgb\<close> has accepted).
\<close>

definition toUpperChar :: "char \<Rightarrow> char" where
  "toUpperChar c =
    (case map_of (zip ''abcdefghijklmnopqrstuvwxyz'' ''ABCDEFGHIJKLMNOPQRSTUVWXYZ'') c of
       Some u \<Rightarrow> u
     | None \<Rightarrow> c)"

definition toUpperCase :: "string \<Rightarrow> string" where
  "toUpperCase s = map toUpperChar s"

text \<open>\<^verbatim>\<open>Number.prototype.toString(16)\<close> of an integer: a sign and lower-case digits.\<close>

definition digitChar :: "nat \<Rightarrow> char" where
  "digitChar d = ''0123456789abcdef'' ! d"

fun hexDigits :: "nat \<Rightarrow> string" where
  "hexDigits n =
    (if n < 16 then [digitChar n] else hexDigits (n div 16) @ [digitChar (n mod 16)])"

declare hexDigits.simps [simp del]

definition toString16 :: "int \<Rightarrow> string" where
  "toString16 i = (if i < 0 then CHR ''-'' # hexDigits (nat (- i)) else hexDigits (nat i))"

text \<open>
  The character class \<^verbatim>\<open>[a-f\d]\<close> under the flag \<^verbatim>\<open>i\<close>, and \<^verbatim>\<open>parseInt(s, 16)\<close> on
  a string of such characters.
\<close>

definition isHexDigit :: "char \<Rightarrow> bool" where
  "isHexDigit c = (c \<in> set ''0123456789abcdefABCDEF'')"

definition hexDigitValue :: "char \<Rightarrow> int" where
  "hexDigitValue c =
    (case map_of (zip ''0123456789abcdefABCDEF''
        [0, 1, 2, 3, 4, 5, 6, 7, 8, 9, 10, 11, 12, 13, 14, 15, 10, 11, 12, 13, 14, 15]) c of
       Some v \<Rightarrow> v
     | None \<Rightarrow> 0)"

definition parseInt16 :: "string \<Rightarrow> int" where
  "parseInt16 s = foldl (\<lambda>acc c. 16 * acc + hexDigitValue c) 0 s"

text \<open>\<^verbatim>\<open>Math.round\<close>: the nearest integer, a half rounded up.\<close>

definition Math_round :: "real \<Rightarrow> int" where
  "Math_round x = \<lfloor>x + 1 / 2\<rfloor>"

text \<open>\<^verbatim>\<open>Number.MAX_VALUE\<close>, the largest finite double.\<close>

definition MAX_VALUE :: real where
  "MAX_VALUE = 2 ^ 1024 - 2 ^ 971"

subsection \<open>Colour conversions\<close>

text \<open>
  \<^verbatim>\<open>hexToRgb\<close> matches \<^verbatim>\<open>/^#?([a-f\d]{2})([a-f\d]{2})([a-f\d]{2})$/i\<close>: an optional
  \<^verbatim>\<open>#\<close>, then six hexadecimal digits up to the end of the string.
\<close>

definition hexToRgb :: "string \<Rightarrow> rgb option" where
  "hexToRgb hex =
    (let body = (case hex of c # cs \<Rightarrow> if c = CHR ''#'' then cs else hex | [] \<Rightarrow> hex)
     in if length body = 6 \<and> list_all isHexDigit body
        then Some \<lparr>rgb_r = parseInt16 (take 2 body),
                   rgb_g = parseInt16 (take 2 (drop 2 body)),
                   rgb_b = parseInt16 (take 2 (drop 4 body))\<rparr>
        else None)"

text \<open>
  \<^verbatim>\<open>rgbToHex\<close>: \<^verbatim>\<open>"#" + ((1 << 24) | (r << 16) | (g << 8) | b).toString(16).slice(1).toUpperCase()\<close>.
  The operands are converted to 32-bit integers and the result is read as a signed one.
\<close>

definition rgbToHex :: "int \<Rightarrow> int \<Rightarrow> int \<Rightarrow> string" where
  "rgbToHex r g b =
    CHR ''#'' # toUpperCase (drop 1 (toString16 (sint
      (((push_bit 24 1 OR push_bit 16 (word_of_int r)) OR push_bit 8 (word_of_int g))
        OR word_of_int b :: 32 word))))"

definition rgbToHsl :: "int \<Rightarrow> int \<Rightarrow> int \<Rightarrow> hsl" where
  "rgbToHsl r0 g0 b0 =
    (let r = real_of_int r0 / 255; g = real_of_int g0 / 255; b = real_of_int b0 / 255;
         mx = max (max r g) b;
         mn = min (min r g) b;
         l = (mx + mn) / 2
     in if mx \<noteq> mn
        then (let d = mx - mn;
                  s = (if l > 0.5 then d / (2 - mx - mn) else d / (mx + mn));
                  h = (if mx = r then (g - b) / d + (if g < b then 6 else 0)
                       else if mx = g then (b - r) / d + 2
                       else if mx = b then (r - g) / d + 4
                       else 0)
              in \<lparr>hsl_h = h / 6, hsl_s = s, hsl_l = l\<rparr>)
        else \<lparr>hsl_h = 0, hsl_s = 0, hsl_l = l\<rparr>)"

definition hue2rgb :: "real \<Rightarrow> real \<Rightarrow> real \<Rightarrow> real" where
  "hue2rgb p q t0 =
    (let t1 = (if t0 < 0 then t0 + 1 else t0);
         t = (if t1 > 1 then t1 - 1 else t1)
     in if t < 1 / 6 then p + (q - p) * 6 * t
        else if t < 1 / 2 then q
        else if t < 2 / 3 then p + (q - p) * (2 / 3 - t) * 6
        else p)"

definition hslToRgb :: "real \<Rightarrow> real \<Rightarrow> real \<Rightarrow> rgb" where
  "hslToRgb h s l =
    (if s = 0
     then \<lparr>rgb_r = Math_round (l * 255), rgb_g = Math_round (l * 255),
           rgb_b = Math_round (l * 255)\<rparr>
     else (let q = (if l < 0.5 then l * (1 + s) else l + s - l * s);
               p = 2 * l - q
           in \<lparr>rgb_r = Math_round (hue2rgb p q (h + 1 / 3) * 255),
                rgb_g = Math_round (hue2rgb p q h * 255),
                rgb_b = Math_round (hue2rgb p q (h - 1 / 3) * 255)\<rparr>))"

subsection \<open>Luminance and contrast\<close>

text \<open>The expression that \<^verbatim>\<open>calculateLuminance\<close> applies to each channel.\<close>

definition linearChannel :: "real \<Rightarrow> real" where
  "linearChannel c = (if c \<le> 0.03928 then c / 12.92 else ((c + 0.055) / 1.055) powr 2.4)"

definition calculateLuminance :: "int \<Rightarrow> int \<Rightarrow> int \<Rightarrow> real" where
  "calculateLuminance r g b =
    (let rsrgb = real_of_int r / 255; gsrgb = real_of_int g / 255; bsrgb = real_of_int b / 255;
         r1 = linearChannel rsrgb; g1 = linearChannel gsrgb; b1 = linearChannel bsrgb
     in 0.2126 * r1 + 0.7152 * g1 + 0.0722 * b1)"

definition calculateContrastRatio :: "string \<Rightarrow> string \<Rightarrow> real" where
  "calculateContrastRatio color1 color2 =
    (case (hexToRgb color1, hexToRgb color2) of
       (Some rgb1, Some rgb2) \<Rightarrow>
         (let luminance1 = calculateLuminance (rgb_r rgb1) (rgb_g rgb1) (rgb_b rgb1);
              luminance2 = calculateLuminance (rgb_r rgb2) (rgb_g rgb2) (rgb_b rgb2);
              lighter = max luminance1 luminance2;
              darker = min luminance1 luminance2
          in (lighter + 0.05) / (darker + 0.05))
     | _ \<Rightarrow> 1)"

subsection \<open>Grades\<close>

text \<open>
  \<^verbatim>\<open>findNeighboringGrades\<close>. The ranges are sorted by descending \<^verbatim>\<open>min\<close> (the
  comparator is \<^verbatim>\<open>(a, b) => b.min - a.min\<close>, the sort is stable). The loop over the index
  \<open>i\<close> stops at the first range whose \<^verbatim>\<open>min\<close> lies below the luminance; its result is
  the pair \<^verbatim>\<open>(lowerGrade, higherGrade)\<close> at the end of the loop.
\<close>

definition sortedRanges :: "luminance_range list" where
  "sortedRanges = sort_key (\<lambda>a. - range_min a) LUMINANCE_RANGES"

function neighborLoop :: "real \<Rightarrow> luminance_range list \<Rightarrow> nat \<Rightarrow> int option \<times> int option" where
  "neighborLoop luminance ranges i =
    (if i < length ranges
     then (if luminance > range_min (ranges ! i)
           then (Some (range_grade (ranges ! i)),
                 if i > 0 then Some (range_grade (ranges ! (i - 1))) else None)
           else neighborLoop luminance ranges (i + 1))
     else (None, None))"
  by pat_completeness auto
termination
  by (relation "measure (\<lambda>(luminance, ranges, i). length ranges - i)") auto

declare neighborLoop.simps [simp del]

definition findNeighboringGrades :: "real \<Rightarrow> int option \<times> int option" where
  "findNeighboringGrades luminance =
    (case neighborLoop luminance sortedRanges 0 of
       (None, higherGrade) \<Rightarrow> (Some (range_grade (last sortedRanges)), higherGrade)
     | (Some lowerGrade, higherGrade) \<Rightarrow> (Some lowerGrade, higherGrade))"

text \<open>
  \<^verbatim>\<open>determineGrade\<close>: the first loop returns at the first range that holds the
  luminance; the second keeps the pair \<^verbatim>\<open>(closestGrade, minDifference)\<close>. The comparisons
  of doubles are exact; \<^verbatim>\<open>range.min + range.max\<close>, its half and
  \<^verbatim>\<open>luminance - midRange\<close> are rounded, \<^verbatim>\<open>Math.abs\<close> is exact.
\<close>

fun exactLoop :: "real \<Rightarrow> luminance_range list \<Rightarrow> int option" where
  "exactLoop luminance [] = None"
| "exactLoop luminance (rng # rest) =
    (if luminance \<ge> range_min rng \<and> luminance \<le> range_max rng
     then Some (range_grade rng)
     else exactLoop luminance rest)"

fun closestLoop :: "real \<Rightarrow> luminance_range list \<Rightarrow> int \<times> real \<Rightarrow> int \<times> real" where
  "closestLoop luminance [] (closestGrade, minDifference) = (closestGrade, minDifference)"
| "closestLoop luminance (rng # rest) (closestGrade, minDifference) =
    (let midRange = binary64 (binary64 (range_min rng + range_max rng) / 2);
         difference = \<bar>binary64 (luminance - midRange)\<bar>
     in if difference < minDifference
        then closestLoop luminance rest (range_grade rng, difference)
        else closestLoop luminance rest (closestGrade, minDifference))"

definition determineGrade :: "real \<Rightarrow> grade_info" where
  "determineGrade luminance =
    (case exactLoop luminance LUMINANCE_RANGES of
       Some g \<Rightarrow>
         \<lparr>info_grade = g, info_exact = True, info_lowerGrade = None, info_higherGrade = None\<rparr>
     | None \<Rightarrow>
         (let (closestGrade, minDifference) = closestLoop luminance LUMINANCE_RANGES (50, MAX_VALUE);
              (lowerGrade, higherGrade) = findNeighboringGrades luminance
          in \<lparr>info_grade = closestGrade, info_exact = False,
               info_lowerGrade = Some lowerGrade, info_higherGrade = Some higherGrade\<rparr>))"

subsection \<open>Colour synthesis\<close>

definition adjustSaturationForPastel :: "real \<Rightarrow> real \<Rightarrow> int \<Rightarrow> real" where
  "adjustSaturationForPastel saturation luminance grade =
    (if grade = 0 \<or> grade = 100 then 0
     else (let baseSaturation = max saturation 0.08;
               normalizedGrade = real_of_int grade / 100;
               smoothCurve = normalizedGrade powr 1.6;
               ultraSmoothFactor = normalizedGrade * normalizedGrade * normalizedGrade;
               blendedFactor = (smoothCurve * 0.7) + (ultraSmoothFactor * 0.3);
               saturationMultiplier = 0.45 + (blendedFactor * 0.35);
               maxSaturation = 0.4 + (blendedFactor * 0.3)
           in min (baseSaturation * saturationMultiplier) maxSaturation))"

text \<open>
  The state of the search loop of \<^verbatim>\<open>generateColorWithLuminance\<close>. The loop returns
  the colour it left the function with, if it did, and the state it stopped in.
\<close>

record search_state =
  low :: real
  high :: real
  mid :: real
  iterations :: nat

definition maxIterations :: nat where
  "maxIterations = 30"

definition initialMid :: "real \<Rightarrow> real" where
  "initialMid targetLuminance =
    (if targetLuminance > 0.9 then 0.95
     else if targetLuminance > 0.7 then 0.85
     else if targetLuminance > 0.3 then 0.6
     else if targetLuminance > 0.1 then 0.4
     else 0.2)"

definition searchTolerance :: "int option \<Rightarrow> real" where
  "searchTolerance grade =
    (case grade of
       None \<Rightarrow> 0.001
     | Some g \<Rightarrow> if g \<le> 20 then 0.002 else if g \<le> 40 then 0.001 else 0.001)"

function searchLoop ::
  "real \<Rightarrow> real \<Rightarrow> real \<Rightarrow> real \<Rightarrow> search_state \<Rightarrow> string option \<times> search_state" where
  "searchLoop hue adjustedSaturation targetLuminance tolerance st =
    (if iterations st < maxIterations
     then (let rgb = hslToRgb hue adjustedSaturation (mid st);
               luminance = calculateLuminance (rgb_r rgb) (rgb_g rgb) (rgb_b rgb)
           in if \<bar>luminance - targetLuminance\<bar> < tolerance
              then (Some (rgbToHex (rgb_r rgb) (rgb_g rgb) (rgb_b rgb)), st)
              else (let st1 = (if luminance > targetLuminance
                               then st\<lparr>high := mid st\<rparr>
                               else st\<lparr>low := mid st\<rparr>)
                    in searchLoop hue adjustedSaturation targetLuminance tolerance
                         (st1\<lparr>mid := (low st1 + high st1) / 2,
                              iterations := iterations st1 + 1\<rparr>)))
     else (None, st))"
  by pat_completeness auto
termination
  by (relation "measure (\<lambda>(hue, adjustedSaturation, targetLuminance, tolerance, st).
        maxIterations - iterations st)") auto

declare searchLoop.simps [simp del]

definition generateColorWithLuminance :: "real \<Rightarrow> real \<Rightarrow> real \<Rightarrow> int option \<Rightarrow> string" where
  "generateColorWithLuminance hue saturation targetLuminance grade =
    (let adjustedSaturation =
           (case grade of
              Some g \<Rightarrow> adjustSaturationForPastel saturation targetLuminance g
            | None \<Rightarrow> saturation);
         st0 = \<lparr>low = 0, high = 1, mid = initialMid targetLuminance, iterations = 0\<rparr>;
         tolerance = searchTolerance grade
     in case searchLoop hue adjustedSaturation targetLuminance tolerance st0 of
          (Some color, st) \<Rightarrow> color
        | (None, st) \<Rightarrow>
            (let finalRgb = hslToRgb hue adjustedSaturation (mid st)
             in rgbToHex (rgb_r finalRgb) (rgb_g finalRgb) (rgb_b finalRgb)))"

subsection \<open>The palette\<close>

text \<open>The entry that one turn of the loop of \<^verbatim>\<open>generatePalette\<close> pushes for a range.\<close>

definition paletteEntry ::
  "string \<Rightarrow> real \<Rightarrow> grade_info \<Rightarrow> real \<Rightarrow> real \<Rightarrow> luminance_range \<Rightarrow> palette_entry" where
  "paletteEntry hexColor inputLuminance inputGradeInfo h s rng =
    (if range_grade rng = info_grade inputGradeInfo \<and> info_exact inputGradeInfo
     then \<lparr>entry_grade = range_grade rng, entry_color = toUpperCase hexColor,
           entry_luminance = inputLuminance, entry_isInputColor = True\<rparr>
     else (let targetLuminance =
                 (if range_grade rng \<le> 20
                  then range_min rng + (range_max rng - range_min rng) * 0.25
                  else if range_grade rng \<le> 40
                  then range_min rng + (range_max rng - range_min rng) * 0.4
                  else (range_min rng + range_max rng) / 2)
           in if range_grade rng = 0
              then \<lparr>entry_grade = 0, entry_color = ''#FFFFFF'', entry_luminance = 1.000,
                    entry_isInputColor = False\<rparr>
              else if range_grade rng = 100
              then \<lparr>entry_grade = 100, entry_color = ''#000000'', entry_luminance = 0.000,
                    entry_isInputColor = False\<rparr>
              else (let color = generateColorWithLuminance h s targetLuminance
                                  (Some (range_grade rng));
                        actualLuminance =
                          (case hexToRgb color of
                             Some actualRgb \<Rightarrow>
                               calculateLuminance (rgb_r actualRgb) (rgb_g actualRgb)
                                 (rgb_b actualRgb)
                           | None \<Rightarrow> 0)
                    in \<lparr>entry_grade = range_grade rng, entry_color = color,
                         entry_luminance = actualLuminance, entry_isInputColor = False\<rparr>)))"

fun paletteLoop ::
  "string \<Rightarrow> real \<Rightarrow> grade_info \<Rightarrow> real \<Rightarrow> real \<Rightarrow> luminance_range list \<Rightarrow>
    palette_entry list \<Rightarrow> palette_entry list" where
  "paletteLoop hexColor inputLuminance inputGradeInfo h s [] palette = palette"
| "paletteLoop hexColor inputLuminance inputGradeInfo h s (rng # rest) palette =
    paletteLoop hexColor inputLuminance inputGradeInfo h s rest
      (palette @ [paletteEntry hexColor inputLuminance inputGradeInfo h s rng])"

definition generatePalette :: "string \<Rightarrow> palette_result" where
  "generatePalette hexColor =
    (case hexToRgb hexColor of
       None \<Rightarrow>
         \<lparr>result_palette = [],
          result_inputGradeInfo =
            \<lparr>info_grade = 50, info_exact = False, info_lowerGrade = None,
             info_higherGrade = None\<rparr>\<rparr>
     | Some rgb \<Rightarrow>
         (let inputLuminance = calculateLuminance (rgb_r rgb) (rgb_g rgb) (rgb_b rgb);
              inputGradeInfo = determineGrade inputLuminance;
              c = rgbToHsl (rgb_r rgb) (rgb_g rgb) (rgb_b rgb)
          in \<lparr>result_palette =
                 paletteLoop hexColor inputLuminance inputGradeInfo (hsl_h c) (hsl_s c)
                   LUMINANCE_RANGES [],
               result_inputGradeInfo = inputGradeInfo\<rparr>))"

subsection \<open>Notions used in the statements\<close>

text \<open>The upper-case hexadecimal digit of a value below 16, as \<^verbatim>\<open>rgbToHex\<close> emits it.\<close>

definition upperDigit :: "nat \<Rightarrow> char" where
  "upperDigit d = toUpperChar (digitChar d)"

text \<open>
  A well-formed colour string, in the words of the specification: an optional \<^verbatim>\<open>#\<close>
  followed by exactly six hexadecimal digits.
\<close>

definition hexColorString :: "string \<Rightarrow> bool" where
  "hexColorString s =
    ((length s = 6 \<and> list_all isHexDigit s) \<or>
     (length s = 7 \<and> hd s = CHR ''#'' \<and> list_all isHexDigit (tl s)))"

text \<open>The entry of a palette that carries a given grade (the first one, if any).\<close>

definition entryOfGrade :: "int \<Rightarrow> palette_entry list \<Rightarrow> palette_entry option" where
  "entryOfGrade g palette = find (\<lambda>e. entry_grade e = g) palette"

text \<open>
  The condition under which the warning of \<^verbatim>\<open>ColorPaletteGenerator\<close> names the two
  neighbouring grades: \<^verbatim>\<open>lowerGrade !== null && higherGrade !== null\<close>. Otherwise it shows
  the message for missing neighbours.
\<close>

definition warningNamesNeighbors :: "grade_info \<Rightarrow> bool" where
  "warningNamesNeighbors info =
    (info_lowerGrade info \<noteq> Some None \<and> info_higherGrade info \<noteq> Some None)"

text \<open>
  A luminance lies within a band, bounds included; and its absolute difference from the
  midpoint \<open>(min + max) / 2\<close> of a band, both in the arithmetic of doubles.
\<close>

definition inBand :: "real \<Rightarrow> luminance_range \<Rightarrow> bool" where
  "inBand luminance rng = (range_min rng \<le> luminance \<and> luminance \<le> range_max rng)"

definition midpointDistance :: "real \<Rightarrow> luminance_range \<Rightarrow> real" where
  "midpointDistance luminance rng =
    \<bar>binary64 (luminance - binary64 (binary64 (range_min rng + range_max rng) / 2))\<bar>"

text \<open>
  The blended curve of the specification for \<^verbatim>\<open>adjustSaturationForPastel\<close>: 70 percent of
  \<open>(grade / 100) ^ 1.6\<close> and 30 percent of \<open>(grade / 100) ^ 3\<close>.
\<close>

definition blendedCurve :: "int \<Rightarrow> real" where
  "blendedCurve g = 0.7 * (real_of_int g / 100) powr 1.6 + 0.3 * (real_of_int g / 100) ^ 3"

text \<open>A well-formed upper-case colour: \<^verbatim>\<open>#\<close> and six digits among \<^verbatim>\<open>0-9A-F\<close>.\<close>

definition isUpperHexDigit :: "char \<Rightarrow> bool" where
  "isUpperHexDigit c = (c \<in> set ''0123456789ABCDEF'')"

definition upperHexColor :: "string \<Rightarrow> bool" where
  "upperHexColor s = (length s = 7 \<and> hd s = CHR ''#'' \<and> list_all isUpperHexDigit (tl s))"

text \<open>
  The search of \<^verbatim>\<open>generateColorWithLuminance\<close> in the words of the specification: the
  colour and the luminance at a lightness, the tolerance of a grade, and a bisection of at
  most \<open>n\<close> steps that returns the colour at the midpoint once its luminance is within the
  tolerance of the target, moves the upper bound to the midpoint when the luminance is too
  high and the lower bound when it is too low, and returns the colour at the last midpoint
  when the steps are used up.
\<close>

definition colorAt :: "real \<Rightarrow> real \<Rightarrow> real \<Rightarrow> string" where
  "colorAt hue saturation lightness =
    rgbToHex (rgb_r (hslToRgb hue saturation lightness))
      (rgb_g (hslToRgb hue saturation lightness)) (rgb_b (hslToRgb hue saturation lightness))"

definition luminanceAt :: "real \<Rightarrow> real \<Rightarrow> real \<Rightarrow> real" where
  "luminanceAt hue saturation lightness =
    calculateLuminance (rgb_r (hslToRgb hue saturation lightness))
      (rgb_g (hslToRgb hue saturation lightness)) (rgb_b (hslToRgb hue saturation lightness))"

definition toleranceOfGrade :: "int option \<Rightarrow> real" where
  "toleranceOfGrade grade =
    (case grade of Some g \<Rightarrow> if g \<le> 20 then 0.002 else 0.001 | None \<Rightarrow> 0.001)"

fun bisection :: "nat \<Rightarrow> real \<Rightarrow> real \<Rightarrow> real \<Rightarrow> real \<Rightarrow> real \<Rightarrow> real \<Rightarrow> real \<Rightarrow> string" where
  "bisection 0 hue saturation target tolerance lo hi m = colorAt hue saturation m"
| "bisection (Suc n) hue saturation target tolerance lo hi m =
    (if \<bar>luminanceAt hue saturation m - target\<bar> < tolerance then colorAt hue saturation m
     else if luminanceAt hue saturation m > target
     then bisection n hue saturation target tolerance lo m ((lo + m) / 2)
     else bisection n hue saturation target tolerance m hi ((m + hi) / 2))"

text \<open>
  How many times the loop body ran, and the colour the function returns, for a result of
  \<open>searchLoop\<close>.
\<close>

definition loopPasses :: "string option \<times> search_state \<Rightarrow> nat" where
  "loopPasses res = (case res of (Some color, st) \<Rightarrow> iterations st + 1 | (None, st) \<Rightarrow> iterations st)"

definition loopColor :: "real \<Rightarrow> real \<Rightarrow> string option \<times> search_state \<Rightarrow> string" where
  "loopColor hue saturation res =
    (case res of (Some color, st) \<Rightarrow> color | (None, st) \<Rightarrow> colorAt hue saturation (mid st))"

section \<open>Properties\<close>

subsection \<open>The doubles of the grade table\<close>

lemmas binary64_eval = binary64_def ulpSearch.simps roundHalfEven_def Let_def

lemma table_doubles:
  "binary64 1.000 = 1"
  "binary64 0.850 = 7656119366529843 / 9007199254740992"
  "binary64 0.930 = 8376695306909123 / 9007199254740992"
  "binary64 0.750 = 3 / 4"
  "binary64 0.820 = 7385903388887613 / 9007199254740992"
  "binary64 0.500 = 1 / 2"
  "binary64 0.650 = 5854679515581645 / 9007199254740992"
  "binary64 0.350 = 3152519739159347 / 9007199254740992"
  "binary64 0.450 = 8106479329266893 / 18014398509481984"
  "binary64 0.225 = 8106479329266893 / 36028797018963968"
  "binary64 0.300 = 5404319552844595 / 18014398509481984"
  "binary64 0.175 = 3152519739159347 / 18014398509481984"
  "binary64 0.183 = 3296634927235203 / 18014398509481984"
  "binary64 0.100 = 3602879701896397 / 36028797018963968"
  "binary64 0.125 = 1 / 8"
  "binary64 0.050 = 3602879701896397 / 72057594037927936"
  "binary64 0.070 = 1261007895663739 / 18014398509481984"
  "binary64 0.020 = 5764607523034235 / 288230376151711744"
  "binary64 0.040 = 5764607523034235 / 144115188075855872"
  "binary64 0.005 = 5764607523034235 / 1152921504606846976"
  "binary64 0.015 = 1080863910568919 / 72057594037927936"
  "binary64 0.000 = 0"
  by (simp_all add: binary64_eval)

lemma LUMINANCE_RANGES_values:
  "LUMINANCE_RANGES =
    [\<lparr>range_grade = 0, range_min = 1,
      range_max = 1\<rparr>,
     \<lparr>range_grade = 5, range_min = 7656119366529843 / 9007199254740992,
      range_max = 8376695306909123 / 9007199254740992\<rparr>,
     \<lparr>range_grade = 10, range_min = 3 / 4,
      range_max = 7385903388887613 / 9007199254740992\<rparr>,
     \<lparr>range_grade = 20, range_min = 1 / 2,
      range_max = 5854679515581645 / 9007199254740992\<rparr>,
     \<lparr>range_grade = 30, range_min = 3152519739159347 / 9007199254740992,
      range_max = 8106479329266893 / 18014398509481984\<rparr>,
     \<lparr>range_grade = 40, range_min = 8106479329266893 / 36028797018963968,
      range_max = 5404319552844595 / 18014398509481984\<rparr>,
     \<lparr>range_grade = 50, range_min = 3152519739159347 / 18014398509481984,
      range_max = 3296634927235203 / 18014398509481984\<rparr>,
     \<lparr>range_grade = 60, range_min = 3602879701896397 / 36028797018963968,
      range_max = 1 / 8\<rparr>,
     \<lparr>range_grade = 70, range_min = 3602879701896397 / 72057594037927936,
      range_max = 1261007895663739 / 18014398509481984\<rparr>,
     \<lparr>range_grade = 80, range_min = 5764607523034235 / 288230376151711744,
      range_max = 5764607523034235 / 144115188075855872\<rparr>,
     \<lparr>range_grade = 90, range_min = 5764607523034235 / 1152921504606846976,
      range_max = 1080863910568919 / 72057594037927936\<rparr>,
     \<lparr>range_grade = 100, range_min = 0,
      range_max = 0\<rparr>]"
  unfolding LUMINANCE_RANGES_def table_doubles ..

subsection \<open>The hexadecimal notation and its round trip\<close>

lemma or_push_bit_8:
  fixes x y :: int
  assumes "0 \<le> x" "x \<le> 255"
  shows "push_bit 8 y OR x = 256 * y + x"
proof -
  have "take_bit 8 x = x" using assms by (simp add: take_bit_int_eq_self)
  then have "push_bit 8 y OR x = concat_bit 8 x y"
    by (simp add: concat_bit_def or.commute)
  also have "\<dots> = take_bit 8 x + push_bit 8 y" by (rule concat_bit_eq)
  finally show ?thesis using \<open>take_bit 8 x = x\<close> by (simp add: push_bit_eq_mult)
qed

lemma packed_int:
  fixes r g b :: int
  assumes "0 \<le> r" "r \<le> 255" "0 \<le> g" "g \<le> 255" "0 \<le> b" "b \<le> 255"
  shows "((push_bit 24 1 OR push_bit 16 r) OR push_bit 8 g) OR b = 16777216 + r * 65536 + g * 256 + b"
proof -
  have s1: "push_bit 8 (1::int) OR r = 256 * 1 + r"
    using assms(1,2) by (rule or_push_bit_8)
  have s2: "push_bit 8 (256 * 1 + r) OR g = 256 * (256 * 1 + r) + g"
    using assms(3,4) by (rule or_push_bit_8)
  have s3: "push_bit 8 (256 * (256 * 1 + r) + g) OR b = 256 * (256 * (256 * 1 + r) + g) + b"
    using assms(5,6) by (rule or_push_bit_8)
  have "(push_bit 24 1 OR push_bit 16 r) OR push_bit 8 g
      = push_bit 8 (push_bit 8 (push_bit 8 1 OR r) OR g)"
    by (simp add: push_bit_or push_bit_push_bit)
  then have "((push_bit 24 1 OR push_bit 16 r) OR push_bit 8 g) OR b
      = 256 * (256 * (256 * 1 + r) + g) + b"
    by (simp only: s1 s2 s3)
  then show ?thesis by simp
qed

lemma packed_word:
  fixes r g b :: int
  assumes "0 \<le> r" "r \<le> 255" "0 \<le> g" "g \<le> 255" "0 \<le> b" "b \<le> 255"
  shows "sint (((push_bit 24 1 OR push_bit 16 (word_of_int r)) OR push_bit 8 (word_of_int g))
        OR word_of_int b :: 32 word) = 16777216 + r * 65536 + g * 256 + b"
proof -
  let ?x = "16777216 + r * 65536 + g * 256 + b"
  have "(((push_bit 24 1 OR push_bit 16 (word_of_int r)) OR push_bit 8 (word_of_int g))
        OR word_of_int b :: 32 word) = word_of_int (((push_bit 24 1 OR push_bit 16 r) OR push_bit 8 g) OR b)"
    by (simp only: of_int_or_eq of_int_push_bit of_int_1)
  then have "sint (((push_bit 24 1 OR push_bit 16 (word_of_int r)) OR push_bit 8 (word_of_int g))
        OR word_of_int b :: 32 word) = signed_take_bit 31 ?x"
    using assms by (simp only: packed_int sint_sbintrunc') simp
  moreover have "signed_take_bit 31 ?x = ?x"
    using assms by (intro signed_take_bit_int_eq_self) auto
  ultimately show ?thesis by simp
qed

lemma hexDigits_small: "n < 16 \<Longrightarrow> hexDigits n = [digitChar n]"
  by (simp add: hexDigits.simps)

lemma hexDigits_snoc:
  assumes "0 < m" "d < 16"
  shows "hexDigits (16 * m + d) = hexDigits m @ [digitChar d]"
proof -
  have "\<not> 16 * m + d < 16" using assms by simp
  moreover have "(16 * m + d) div 16 = m" "(16 * m + d) mod 16 = d" using assms by simp_all
  ultimately show ?thesis by (subst hexDigits.simps) simp
qed

lemma below_16_cases:
  assumes "d < (16::nat)"
  shows "d = 0 \<or> d = 1 \<or> d = 2 \<or> d = 3 \<or> d = 4 \<or> d = 5 \<or> d = 6 \<or> d = 7 \<or> d = 8
    \<or> d = 9 \<or> d = 10 \<or> d = 11 \<or> d = 12 \<or> d = 13 \<or> d = 14 \<or> d = 15"
  using assms by arith

lemma upperDigit_facts:
  assumes "d < 16"
  shows "isHexDigit (upperDigit d)" "hexDigitValue (upperDigit d) = int d"
    "upperDigit d \<noteq> CHR ''#''" "upperDigit d = ''0123456789ABCDEF'' ! d"
  using below_16_cases [OF assms]
  by (elim disjE; simp add: upperDigit_def toUpperChar_def digitChar_def isHexDigit_def
      hexDigitValue_def)+

lemma hexDigits_packed:
  fixes r g b :: nat
  assumes "r < 256" "g < 256" "b < 256"
  shows "hexDigits (16777216 + r * 65536 + g * 256 + b) =
    CHR ''1'' # map digitChar [r div 16, r mod 16, g div 16, g mod 16, b div 16, b mod 16]"
proof -
  define m1 where "m1 = 16 * 1 + r div 16"
  define m2 where "m2 = 16 * m1 + r mod 16"
  define m3 where "m3 = 16 * m2 + g div 16"
  define m4 where "m4 = 16 * m3 + g mod 16"
  define m5 where "m5 = 16 * m4 + b div 16"
  define m6 where "m6 = 16 * m5 + b mod 16"
  have pos: "0 < m1" "0 < m2" "0 < m3" "0 < m4" "0 < m5"
    by (simp_all add: m1_def m2_def m3_def m4_def m5_def)
  have lt: "r div 16 < 16" "g div 16 < 16" "b div 16 < 16"
    using assms by simp_all
  have "hexDigits 1 = [digitChar 1]"
    by (rule hexDigits_small) simp
  moreover have "hexDigits m1 = hexDigits 1 @ [digitChar (r div 16)]"
    unfolding m1_def by (rule hexDigits_snoc) (use lt in simp_all)
  moreover have "hexDigits m2 = hexDigits m1 @ [digitChar (r mod 16)]"
    unfolding m2_def by (rule hexDigits_snoc) (use pos in simp_all)
  moreover have "hexDigits m3 = hexDigits m2 @ [digitChar (g div 16)]"
    unfolding m3_def by (rule hexDigits_snoc) (use pos lt in simp_all)
  moreover have "hexDigits m4 = hexDigits m3 @ [digitChar (g mod 16)]"
    unfolding m4_def by (rule hexDigits_snoc) (use pos in simp_all)
  moreover have "hexDigits m5 = hexDigits m4 @ [digitChar (b div 16)]"
    unfolding m5_def by (rule hexDigits_snoc) (use pos lt in simp_all)
  moreover have "hexDigits m6 = hexDigits m5 @ [digitChar (b mod 16)]"
    unfolding m6_def by (rule hexDigits_snoc) (use pos in simp_all)
  moreover have "digitChar 1 = CHR ''1''"
    by (simp add: digitChar_def)
  ultimately have "hexDigits m6 =
      CHR ''1'' # map digitChar [r div 16, r mod 16, g div 16, g mod 16, b div 16, b mod 16]"
    by simp
  moreover have "16777216 + r * 65536 + g * 256 + b = m6"
  proof -
    have "r = 16 * (r div 16) + r mod 16" "g = 16 * (g div 16) + g mod 16"
      "b = 16 * (b div 16) + b mod 16"
      by simp_all
    then have "16777216 + r * 65536 + g * 256 + b =
      16777216 + (16 * (r div 16) + r mod 16) * 65536 + (16 * (g div 16) + g mod 16) * 256
        + (16 * (b div 16) + b mod 16)"
      by simp
    also have "\<dots> = m6"
      unfolding m6_def m5_def m4_def m3_def m2_def m1_def by (simp add: algebra_simps)
    finally show ?thesis .
  qed
  ultimately show ?thesis by simp
qed

lemma rgbToHex_bytes:
  fixes r g b :: int
  assumes "0 \<le> r" "r \<le> 255" "0 \<le> g" "g \<le> 255" "0 \<le> b" "b \<le> 255"
  shows "rgbToHex r g b = CHR ''#'' # map upperDigit
    [nat r div 16, nat r mod 16, nat g div 16, nat g mod 16, nat b div 16, nat b mod 16]"
proof -
  have "nat (16777216 + r * 65536 + g * 256 + b)
      = 16777216 + nat r * 65536 + nat g * 256 + nat b"
    using assms by (simp add: nat_add_distrib nat_mult_distrib)
  moreover have "nat r < 256" "nat g < 256" "nat b < 256"
    using assms by simp_all
  ultimately have "toString16 (16777216 + r * 65536 + g * 256 + b) =
    CHR ''1'' # map digitChar
      [nat r div 16, nat r mod 16, nat g div 16, nat g mod 16, nat b div 16, nat b mod 16]"
    using assms by (simp add: toString16_def hexDigits_packed)
  then show ?thesis
    unfolding rgbToHex_def packed_word [OF assms]
    by (simp add: toUpperCase_def upperDigit_def)
qed

lemma parseInt16_pair:
  assumes "a < 16" "b < 16"
  shows "parseInt16 [upperDigit a, upperDigit b] = 16 * int a + int b"
  using assms by (simp add: parseInt16_def upperDigit_facts(2))

text \<open>
  Claim C7. For all integers \<open>r\<close>, \<open>g\<close>, \<open>b\<close> between 0 and 255, \<^verbatim>\<open>hexToRgb\<close> accepts
  the string that \<^verbatim>\<open>rgbToHex\<close> builds from them and returns exactly these three channels.
\<close>

theorem hexToRgb_rgbToHex:
  fixes r g b :: int
  assumes "0 \<le> r" "r \<le> 255" "0 \<le> g" "g \<le> 255" "0 \<le> b" "b \<le> 255"
  shows "hexToRgb (rgbToHex r g b) = Some \<lparr>rgb_r = r, rgb_g = g, rgb_b = b\<rparr>"
proof -
  have lt: "nat r div 16 < 16" "nat r mod 16 < 16" "nat g div 16 < 16" "nat g mod 16 < 16"
    "nat b div 16 < 16" "nat b mod 16 < 16"
    using assms by simp_all
  have recomb: "16 * int (nat r div 16) + int (nat r mod 16) = r"
    "16 * int (nat g div 16) + int (nat g mod 16) = g"
    "16 * int (nat b div 16) + int (nat b mod 16) = b"
    using assms by (simp_all add: zdiv_int zmod_int)
  show ?thesis
    using lt recomb
    by (simp add: rgbToHex_bytes [OF assms] hexToRgb_def parseInt16_pair upperDigit_facts(1))
qed

theorem hexToRgb_rgbToHex_witness:
  "hexToRgb (rgbToHex 123 196 232) = Some \<lparr>rgb_r = 123, rgb_g = 196, rgb_b = 232\<rparr>"
  using hexToRgb_rgbToHex [of 123 196 232] by simp

subsection \<open>Parsing and the contrast ratio\<close>

lemma isHexDigit_hash: "\<not> isHexDigit CHR ''#''"
  by (simp add: isHexDigit_def)

lemma hexToRgb_None_iff: "hexToRgb s = None \<longleftrightarrow> \<not> hexColorString s"
proof (cases s)
  case Nil
  then show ?thesis by (simp add: hexToRgb_def hexColorString_def)
next
  case (Cons c cs)
  then show ?thesis
    using isHexDigit_hash by (auto simp: hexToRgb_def hexColorString_def Let_def)
qed

text \<open>
  Claim C8. \<^verbatim>\<open>hexToRgb\<close> fails exactly on the strings that are not well-formed colour
  strings. If either string is not well formed, \<^verbatim>\<open>calculateContrastRatio\<close>
  returns 1 (the model is total: nothing is thrown); if both are, both parse and the result
  is \<open>(L_light + 0.05) / (L_dark + 0.05)\<close> for the larger and the smaller of the two
  luminances.
\<close>

theorem calculateContrastRatio_cases:
  "(hexToRgb color1 = None \<longleftrightarrow> \<not> hexColorString color1) \<and>
   (hexToRgb color2 = None \<longleftrightarrow> \<not> hexColorString color2) \<and>
   (\<not> hexColorString color1 \<or> \<not> hexColorString color2 \<longrightarrow>
      calculateContrastRatio color1 color2 = 1) \<and>
   (hexColorString color1 \<and> hexColorString color2 \<longrightarrow>
      (\<exists>rgb1 rgb2. hexToRgb color1 = Some rgb1 \<and> hexToRgb color2 = Some rgb2 \<and>
        calculateContrastRatio color1 color2 =
          (max (calculateLuminance (rgb_r rgb1) (rgb_g rgb1) (rgb_b rgb1))
               (calculateLuminance (rgb_r rgb2) (rgb_g rgb2) (rgb_b rgb2)) + 0.05) /
          (min (calculateLuminance (rgb_r rgb1) (rgb_g rgb1) (rgb_b rgb1))
               (calculateLuminance (rgb_r rgb2) (rgb_g rgb2) (rgb_b rgb2)) + 0.05)))"
proof (intro conjI impI)
  show "hexToRgb color1 = None \<longleftrightarrow> \<not> hexColorString color1"
    "hexToRgb color2 = None \<longleftrightarrow> \<not> hexColorString color2"
    by (rule hexToRgb_None_iff)+
next
  assume "\<not> hexColorString color1 \<or> \<not> hexColorString color2"
  then have "hexToRgb color1 = None \<or> hexToRgb color2 = None"
    by (simp add: hexToRgb_None_iff)
  then show "calculateContrastRatio color1 color2 = 1"
    by (auto simp: calculateContrastRatio_def split: option.splits)
next
  assume "hexColorString color1 \<and> hexColorString color2"
  then obtain rgb1 rgb2 where "hexToRgb color1 = Some rgb1" "hexToRgb color2 = Some rgb2"
    using hexToRgb_None_iff by (metis option.exhaust)
  then show "\<exists>rgb1 rgb2. hexToRgb color1 = Some rgb1 \<and> hexToRgb color2 = Some rgb2 \<and>
        calculateContrastRatio color1 color2 =
          (max (calculateLuminance (rgb_r rgb1) (rgb_g rgb1) (rgb_b rgb1))
               (calculateLuminance (rgb_r rgb2) (rgb_g rgb2) (rgb_b rgb2)) + 0.05) /
          (min (calculateLuminance (rgb_r rgb1) (rgb_g rgb1) (rgb_b rgb1))
               (calculateLuminance (rgb_r rgb2) (rgb_g rgb2) (rgb_b rgb2)) + 0.05)"
    by (simp add: calculateContrastRatio_def Let_def)
qed

lemma hexToRgb_white: "hexToRgb ''#FFFFFF'' = Some \<lparr>rgb_r = 255, rgb_g = 255, rgb_b = 255\<rparr>"
  by (simp add: hexToRgb_def isHexDigit_def parseInt16_def hexDigitValue_def)

lemma hexToRgb_black: "hexToRgb ''#000000'' = Some \<lparr>rgb_r = 0, rgb_g = 0, rgb_b = 0\<rparr>"
  by (simp add: hexToRgb_def isHexDigit_def parseInt16_def hexDigitValue_def)

lemma calculateLuminance_white: "calculateLuminance 255 255 255 = 1"
  by (simp add: calculateLuminance_def linearChannel_def)

lemma calculateLuminance_black: "calculateLuminance 0 0 0 = 0"
  by (simp add: calculateLuminance_def linearChannel_def)

theorem calculateContrastRatio_cases_witness:
  "calculateContrastRatio ''#12G000'' ''#000000'' = 1 \<and>
   calculateContrastRatio ''#FFFFFF'' ''#000000'' = 21"
proof
  have "\<not> hexColorString ''#12G000''"
    by (simp add: hexColorString_def isHexDigit_def)
  then show "calculateContrastRatio ''#12G000'' ''#000000'' = 1"
    using calculateContrastRatio_cases [of "''#12G000''" "''#000000''"] by blast
next
  have "hexColorString ''#FFFFFF'' \<and> hexColorString ''#000000''"
    by (simp add: hexColorString_def isHexDigit_def)
  then show "calculateContrastRatio ''#FFFFFF'' ''#000000'' = 21"
    using calculateContrastRatio_cases [of "''#FFFFFF''" "''#000000''"]
    by (simp add: hexToRgb_white hexToRgb_black calculateLuminance_white
        calculateLuminance_black)
qed

subsection \<open>The shape of the palette\<close>

lemma paletteLoop_append:
  "paletteLoop hexColor inputLuminance info h s ranges palette =
    palette @ map (paletteEntry hexColor inputLuminance info h s) ranges"
  by (induction ranges arbitrary: palette) simp_all

lemma paletteEntry_grade:
  "entry_grade (paletteEntry hexColor inputLuminance info h s rng) = range_grade rng"
  by (simp add: paletteEntry_def Let_def)

lemma paletteEntry_isInputColor:
  "entry_isInputColor (paletteEntry hexColor inputLuminance info h s rng) \<longleftrightarrow>
    range_grade rng = info_grade info \<and> info_exact info"
  by (simp add: paletteEntry_def Let_def)

lemma find_map_grade:
  "find (\<lambda>e. entry_grade e = g) (map (paletteEntry hexColor inputLuminance info h s) ranges) =
    map_option (paletteEntry hexColor inputLuminance info h s)
      (find (\<lambda>rng. range_grade rng = g) ranges)"
  by (induction ranges) (simp_all add: paletteEntry_grade)

lemma generatePalette_accepted:
  assumes "hexToRgb hexColor = Some c"
  shows "result_palette (generatePalette hexColor) =
    map (paletteEntry hexColor (calculateLuminance (rgb_r c) (rgb_g c) (rgb_b c))
          (determineGrade (calculateLuminance (rgb_r c) (rgb_g c) (rgb_b c)))
          (hsl_h (rgbToHsl (rgb_r c) (rgb_g c) (rgb_b c)))
          (hsl_s (rgbToHsl (rgb_r c) (rgb_g c) (rgb_b c))))
      LUMINANCE_RANGES"
  using assms by (simp add: generatePalette_def Let_def paletteLoop_append)

lemma grades_of_ranges: "map range_grade LUMINANCE_RANGES = GRADES"
  by (simp add: LUMINANCE_RANGES_values GRADES_def)

lemma filter_key_distinct:
  "distinct (map f xs) \<Longrightarrow> length (filter (\<lambda>x. f x = y) xs) \<le> 1"
proof (induction xs)
  case Nil
  then show ?case by simp
next
  case (Cons x xs)
  show ?case
  proof (cases "f x = y")
    case True
    with Cons.prems have "\<forall>z\<in>set xs. f z \<noteq> y" by (auto simp: image_iff)
    then have "filter (\<lambda>x. f x = y) xs = []" by (simp add: filter_empty_conv)
    with True show ?thesis by simp
  next
    case False
    with Cons show ?thesis by simp
  qed
qed

lemma input_entries_le_1:
  "length (filter entry_isInputColor
     (map (paletteEntry hexColor inputLuminance info h s) LUMINANCE_RANGES)) \<le> 1"
proof -
  have "distinct (map range_grade LUMINANCE_RANGES)"
    by (simp add: grades_of_ranges GRADES_def)
  then have le: "length (filter (\<lambda>rng. range_grade rng = info_grade info) LUMINANCE_RANGES) \<le> 1"
    by (rule filter_key_distinct)
  have "length (filter entry_isInputColor
     (map (paletteEntry hexColor inputLuminance info h s) LUMINANCE_RANGES))
    = length (filter (\<lambda>rng. range_grade rng = info_grade info \<and> info_exact info)
        LUMINANCE_RANGES)"
    by (simp add: filter_map comp_def paletteEntry_isInputColor)
  also have "\<dots> \<le> length (filter (\<lambda>rng. range_grade rng = info_grade info) LUMINANCE_RANGES)"
    by (cases "info_exact info") simp_all
  finally show ?thesis using le by simp
qed

text \<open>
  Claim C1, as amended. A string that \<^verbatim>\<open>hexToRgb\<close> rejects yields the empty palette.
  For every string it accepts, \<^verbatim>\<open>generatePalette\<close> returns twelve entries whose grades are
  those of \<open>GRADES\<close> in ascending order, and at most one of them is the input colour.
\<close>

theorem generatePalette_shape:
  "(hexToRgb hexColor = None \<longrightarrow> result_palette (generatePalette hexColor) = []) \<and>
   (hexToRgb hexColor \<noteq> None \<longrightarrow>
      length (result_palette (generatePalette hexColor)) = 12 \<and>
      map entry_grade (result_palette (generatePalette hexColor)) = GRADES \<and>
      length (filter entry_isInputColor (result_palette (generatePalette hexColor))) \<le> 1)"
proof (intro conjI impI)
  assume "hexToRgb hexColor = None"
  then show "result_palette (generatePalette hexColor) = []"
    by (simp add: generatePalette_def)
next
  assume "hexToRgb hexColor \<noteq> None"
  then obtain c where c: "hexToRgb hexColor = Some c" by auto
  show "map entry_grade (result_palette (generatePalette hexColor)) = GRADES"
    by (simp add: generatePalette_accepted [OF c] comp_def paletteEntry_grade
        grades_of_ranges [unfolded comp_def])
  then have "length (map entry_grade (result_palette (generatePalette hexColor))) = 12"
    by (simp only: GRADES_def) simp
  then show "length (result_palette (generatePalette hexColor)) = 12"
    by simp
  show "length (filter entry_isInputColor (result_palette (generatePalette hexColor))) \<le> 1"
    by (simp only: generatePalette_accepted [OF c] input_entries_le_1)
qed

lemma hexToRgb_sample: "hexToRgb ''#7BC4E8'' = Some \<lparr>rgb_r = 123, rgb_g = 196, rgb_b = 232\<rparr>"
  by (simp add: hexToRgb_def isHexDigit_def parseInt16_def hexDigitValue_def)

lemma hexToRgb_partial: "hexToRgb ''#12G000'' = None"
  by (simp add: hexToRgb_def isHexDigit_def)

theorem generatePalette_shape_witness:
  "result_palette (generatePalette ''#12G000'') = [] \<and>
   length (result_palette (generatePalette ''#7BC4E8'')) = 12 \<and>
   map entry_grade (result_palette (generatePalette ''#7BC4E8'')) = GRADES \<and>
   length (filter entry_isInputColor (result_palette (generatePalette ''#7BC4E8''))) \<le> 1"
  using generatePalette_shape [of "''#12G000''"] generatePalette_shape [of "''#7BC4E8''"]
  by (simp add: hexToRgb_sample hexToRgb_partial)

text \<open>
  The claim C1 as stated, for every input string, fails on the padded partial input
  \<^verbatim>\<open>#12G000\<close>: the palette is empty.
\<close>

theorem generatePalette_rejected_counterexample:
  "length (result_palette (generatePalette ''#12G000'')) \<noteq> 12"
  by (simp add: generatePalette_def hexToRgb_partial)

subsection \<open>White and black\<close>

lemma determineGrade_1:
  "determineGrade 1 = \<lparr>info_grade = 0, info_exact = True, info_lowerGrade = None, info_higherGrade = None\<rparr>"
  by (simp add: determineGrade_def LUMINANCE_RANGES_values)

lemma determineGrade_0:
  "determineGrade 0 = \<lparr>info_grade = 100, info_exact = True, info_lowerGrade = None, info_higherGrade = None\<rparr>"
  by (simp add: determineGrade_def LUMINANCE_RANGES_values)

lemma entryOfGrade_accepted:
  assumes "hexToRgb hexColor = Some c"
  shows "entryOfGrade g (result_palette (generatePalette hexColor)) =
    map_option (paletteEntry hexColor (calculateLuminance (rgb_r c) (rgb_g c) (rgb_b c))
          (determineGrade (calculateLuminance (rgb_r c) (rgb_g c) (rgb_b c)))
          (hsl_h (rgbToHsl (rgb_r c) (rgb_g c) (rgb_b c)))
          (hsl_s (rgbToHsl (rgb_r c) (rgb_g c) (rgb_b c))))
      (find (\<lambda>rng. range_grade rng = g) LUMINANCE_RANGES)"
  by (simp only: entryOfGrade_def generatePalette_accepted [OF assms] find_map_grade)

lemma find_grade_0:
  "find (\<lambda>rng. range_grade rng = 0) LUMINANCE_RANGES =
    Some \<lparr>range_grade = 0, range_min = 1.000, range_max = 1.000\<rparr>"
  by (simp add: LUMINANCE_RANGES_values)

lemma find_grade_100:
  "find (\<lambda>rng. range_grade rng = 100) LUMINANCE_RANGES =
    Some \<lparr>range_grade = 100, range_min = 0.000, range_max = 0.000\<rparr>"
  by (simp add: LUMINANCE_RANGES_values)

text \<open>
  Claim C6. White has luminance 1 and black has luminance 0, both classify as exact
  matches (grades 0 and 100), and the palettes of \<^verbatim>\<open>#FFFFFF\<close> and \<^verbatim>\<open>#000000\<close> carry
  the input itself at grade 0 and at grade 100.
\<close>

theorem generatePalette_white_black:
  "calculateLuminance 255 255 255 = 1 \<and> calculateLuminance 0 0 0 = 0 \<and>
   determineGrade (calculateLuminance 255 255 255) =
     \<lparr>info_grade = 0, info_exact = True, info_lowerGrade = None, info_higherGrade = None\<rparr> \<and>
   determineGrade (calculateLuminance 0 0 0) =
     \<lparr>info_grade = 100, info_exact = True, info_lowerGrade = None, info_higherGrade = None\<rparr> \<and>
   entryOfGrade 0 (result_palette (generatePalette ''#FFFFFF'')) =
     Some \<lparr>entry_grade = 0, entry_color = ''#FFFFFF'', entry_luminance = 1.0,
           entry_isInputColor = True\<rparr> \<and>
   entryOfGrade 100 (result_palette (generatePalette ''#000000'')) =
     Some \<lparr>entry_grade = 100, entry_color = ''#000000'', entry_luminance = 0.0,
           entry_isInputColor = True\<rparr>"
proof (intro conjI)
  show "entryOfGrade 0 (result_palette (generatePalette ''#FFFFFF'')) =
     Some \<lparr>entry_grade = 0, entry_color = ''#FFFFFF'', entry_luminance = 1.0,
           entry_isInputColor = True\<rparr>"
    by (simp add: entryOfGrade_accepted [OF hexToRgb_white] find_grade_0
        calculateLuminance_white determineGrade_1 paletteEntry_def toUpperCase_def
        toUpperChar_def)
  show "entryOfGrade 100 (result_palette (generatePalette ''#000000'')) =
     Some \<lparr>entry_grade = 100, entry_color = ''#000000'', entry_luminance = 0.0,
           entry_isInputColor = True\<rparr>"
    by (simp add: entryOfGrade_accepted [OF hexToRgb_black] find_grade_100
        calculateLuminance_black determineGrade_0 paletteEntry_def toUpperCase_def
        toUpperChar_def)
qed (simp_all add: calculateLuminance_white calculateLuminance_black determineGrade_1
    determineGrade_0)

lemma hexToRgb_black_bare: "hexToRgb ''000000'' = Some \<lparr>rgb_r = 0, rgb_g = 0, rgb_b = 0\<rparr>"
  by (simp add: hexToRgb_def isHexDigit_def parseInt16_def hexDigitValue_def)

text \<open>
  The claim C3 as stated fails on the accepted input \<^verbatim>\<open>000000\<close>, written without
  \<^verbatim>\<open>#\<close>: the entry of grade 100 is the input itself, \<^verbatim>\<open>000000\<close>.
\<close>

theorem generatePalette_black_bare_counterexample:
  "hexToRgb ''000000'' \<noteq> None \<and>
   map_option entry_color (entryOfGrade 100 (result_palette (generatePalette ''000000'')))
     = Some ''000000'' \<and>
   ''000000'' \<noteq> ''#000000''"
  by (simp add: entryOfGrade_accepted [OF hexToRgb_black_bare] find_grade_100
        calculateLuminance_black determineGrade_0 paletteEntry_def toUpperCase_def
        toUpperChar_def hexToRgb_black_bare)

subsection \<open>The entries of grade 0 and grade 100\<close>

lemma linearChannel_bounds:
  assumes "0 \<le> x" "x \<le> 1"
  shows "0 \<le> linearChannel x" "linearChannel x \<le> 1"
    "linearChannel x = 1 \<longleftrightarrow> x = 1" "linearChannel x = 0 \<longleftrightarrow> x = 0"
proof -
  show "0 \<le> linearChannel x"
    using assms by (simp add: linearChannel_def)
  show "linearChannel x = 0 \<longleftrightarrow> x = 0"
    using assms by (auto simp: linearChannel_def)
  have le1: "linearChannel x \<le> 1 \<and> (linearChannel x = 1 \<longleftrightarrow> x = 1)"
  proof (cases "x \<le> 0.03928")
    case True
    then show ?thesis using assms by (simp add: linearChannel_def)
  next
    case False
    define y where "y = (x + 0.055) / 1.055"
    have y: "0 < y" "y \<le> 1" "y = 1 \<longleftrightarrow> x = 1"
      using assms by (simp_all add: y_def)
    have lc: "linearChannel x = y powr 2.4"
      using False by (simp add: linearChannel_def y_def)
    show ?thesis
    proof (cases "y = 1")
      case True
      then show ?thesis using y lc by simp
    next
      case False
      then have "y < 1" using y by simp
      then have "y powr 2.4 < 1" using y powr01_less_one [of y "2.4"] by simp
      then show ?thesis using lc False y by simp
    qed
  qed
  then show "linearChannel x \<le> 1" "linearChannel x = 1 \<longleftrightarrow> x = 1" by simp_all
qed

lemma calculateLuminance_extremes:
  assumes "0 \<le> r" "r \<le> 255" "0 \<le> g" "g \<le> 255" "0 \<le> b" "b \<le> 255"
  shows "calculateLuminance r g b = 1 \<longleftrightarrow> r = 255 \<and> g = 255 \<and> b = 255"
    and "calculateLuminance r g b = 0 \<longleftrightarrow> r = 0 \<and> g = 0 \<and> b = 0"
proof -
  define x y z where "x = linearChannel (real_of_int r / 255)"
    and "y = linearChannel (real_of_int g / 255)" and "z = linearChannel (real_of_int b / 255)"
  have in01: "0 \<le> real_of_int r / 255" "real_of_int r / 255 \<le> 1"
    "0 \<le> real_of_int g / 255" "real_of_int g / 255 \<le> 1"
    "0 \<le> real_of_int b / 255" "real_of_int b / 255 \<le> 1"
    using assms by simp_all
  have bx: "0 \<le> x" "x \<le> 1" "x = 1 \<longleftrightarrow> r = 255" "x = 0 \<longleftrightarrow> r = 0"
    using linearChannel_bounds [OF in01(1,2)] by (simp_all add: x_def)
  have by': "0 \<le> y" "y \<le> 1" "y = 1 \<longleftrightarrow> g = 255" "y = 0 \<longleftrightarrow> g = 0"
    using linearChannel_bounds [OF in01(3,4)] by (simp_all add: y_def)
  have bz: "0 \<le> z" "z \<le> 1" "z = 1 \<longleftrightarrow> b = 255" "z = 0 \<longleftrightarrow> b = 0"
    using linearChannel_bounds [OF in01(5,6)] by (simp_all add: z_def)
  have lum: "calculateLuminance r g b = 0.2126 * x + 0.7152 * y + 0.0722 * z"
    by (simp add: calculateLuminance_def x_def y_def z_def)
  have "0.2126 * x + 0.7152 * y + 0.0722 * z = 1 \<longleftrightarrow> x = 1 \<and> y = 1 \<and> z = 1"
    using bx(1,2) by'(1,2) bz(1,2) by auto
  then show "calculateLuminance r g b = 1 \<longleftrightarrow> r = 255 \<and> g = 255 \<and> b = 255"
    using lum bx(3) by'(3) bz(3) by simp
  have "0.2126 * x + 0.7152 * y + 0.0722 * z = 0 \<longleftrightarrow> x = 0 \<and> y = 0 \<and> z = 0"
    using bx(1,2) by'(1,2) bz(1,2) by auto
  then show "calculateLuminance r g b = 0 \<longleftrightarrow> r = 0 \<and> g = 0 \<and> b = 0"
    using lum bx(4) by'(4) bz(4) by simp
qed

lemma isHexDigit_cases:
  assumes "isHexDigit c"
  shows "0 \<le> hexDigitValue c" "hexDigitValue c \<le> 15"
    "hexDigitValue c = 15 \<longleftrightarrow> toUpperChar c = CHR ''F''"
    "hexDigitValue c = 0 \<longleftrightarrow> toUpperChar c = CHR ''0''"
proof -
  have "c = CHR ''0'' \<or> c = CHR ''1'' \<or> c = CHR ''2'' \<or> c = CHR ''3'' \<or> c = CHR ''4''
    \<or> c = CHR ''5'' \<or> c = CHR ''6'' \<or> c = CHR ''7'' \<or> c = CHR ''8'' \<or> c = CHR ''9''
    \<or> c = CHR ''a'' \<or> c = CHR ''b'' \<or> c = CHR ''c'' \<or> c = CHR ''d'' \<or> c = CHR ''e''
    \<or> c = CHR ''f'' \<or> c = CHR ''A'' \<or> c = CHR ''B'' \<or> c = CHR ''C'' \<or> c = CHR ''D''
    \<or> c = CHR ''E'' \<or> c = CHR ''F''"
    using assms by (simp add: isHexDigit_def)
  then show "0 \<le> hexDigitValue c" "hexDigitValue c \<le> 15"
    "hexDigitValue c = 15 \<longleftrightarrow> toUpperChar c = CHR ''F''"
    "hexDigitValue c = 0 \<longleftrightarrow> toUpperChar c = CHR ''0''"
    by (elim disjE; simp add: hexDigitValue_def toUpperChar_def)+
qed

lemma length_6D:
  assumes "length xs = 6"
  obtains d1 d2 d3 d4 d5 d6 where "xs = [d1, d2, d3, d4, d5, d6]"
  using assms by (auto simp: numeral_eq_Suc length_Suc_conv)

lemma hexToRgb_SomeD:
  assumes "hexToRgb hex = Some c"
  obtains d1 d2 d3 d4 d5 d6 where
    "hex = [d1, d2, d3, d4, d5, d6] \<or> hex = CHR ''#'' # [d1, d2, d3, d4, d5, d6]"
    "list_all isHexDigit [d1, d2, d3, d4, d5, d6]"
    "c = \<lparr>rgb_r = 16 * hexDigitValue d1 + hexDigitValue d2,
          rgb_g = 16 * hexDigitValue d3 + hexDigitValue d4,
          rgb_b = 16 * hexDigitValue d5 + hexDigitValue d6\<rparr>"
proof -
  define body where "body = (case hex of c # cs \<Rightarrow> if c = CHR ''#'' then cs else hex | [] \<Rightarrow> hex)"
  have ok: "length body = 6" "list_all isHexDigit body"
    and c: "c = \<lparr>rgb_r = parseInt16 (take 2 body), rgb_g = parseInt16 (take 2 (drop 2 body)),
                 rgb_b = parseInt16 (take 2 (drop 4 body))\<rparr>"
    using assms unfolding hexToRgb_def body_def [symmetric]
    by (simp_all add: Let_def split: if_splits)
  from ok(1) obtain d1 d2 d3 d4 d5 d6 where b: "body = [d1, d2, d3, d4, d5, d6]"
    by (rule length_6D)
  have "hex = body \<or> hex = CHR ''#'' # body"
    unfolding body_def by (cases hex) auto
  then show thesis
    using that [of d1 d2 d3 d4 d5 d6] ok c unfolding b by (simp add: parseInt16_def)
qed

lemma hexToRgb_channels:
  assumes "hexToRgb hex = Some c"
  shows "0 \<le> rgb_r c" "rgb_r c \<le> 255" "0 \<le> rgb_g c" "rgb_g c \<le> 255"
    "0 \<le> rgb_b c" "rgb_b c \<le> 255"
proof -
  from assms obtain d1 d2 d3 d4 d5 d6 where
    "list_all isHexDigit [d1, d2, d3, d4, d5, d6]"
    "c = \<lparr>rgb_r = 16 * hexDigitValue d1 + hexDigitValue d2,
          rgb_g = 16 * hexDigitValue d3 + hexDigitValue d4,
          rgb_b = 16 * hexDigitValue d5 + hexDigitValue d6\<rparr>"
    by (rule hexToRgb_SomeD)
  then show "0 \<le> rgb_r c" "rgb_r c \<le> 255" "0 \<le> rgb_g c" "rgb_g c \<le> 255"
    "0 \<le> rgb_b c" "rgb_b c \<le> 255"
    using isHexDigit_cases(1,2) [of d1] isHexDigit_cases(1,2) [of d2]
      isHexDigit_cases(1,2) [of d3] isHexDigit_cases(1,2) [of d4]
      isHexDigit_cases(1,2) [of d5] isHexDigit_cases(1,2) [of d6]
    by simp_all
qed

lemma pair_value_extremes:
  assumes "isHexDigit a" "isHexDigit b"
  shows "16 * hexDigitValue a + hexDigitValue b = 255 \<longleftrightarrow>
      toUpperChar a = CHR ''F'' \<and> toUpperChar b = CHR ''F''"
    and "16 * hexDigitValue a + hexDigitValue b = 0 \<longleftrightarrow>
      toUpperChar a = CHR ''0'' \<and> toUpperChar b = CHR ''0''"
proof -
  have "16 * hexDigitValue a + hexDigitValue b = 255 \<longleftrightarrow>
      hexDigitValue a = 15 \<and> hexDigitValue b = 15"
    using isHexDigit_cases(1,2) [OF assms(1)] isHexDigit_cases(1,2) [OF assms(2)] by arith
  then show "16 * hexDigitValue a + hexDigitValue b = 255 \<longleftrightarrow>
      toUpperChar a = CHR ''F'' \<and> toUpperChar b = CHR ''F''"
    by (simp add: isHexDigit_cases(3) assms)
  have "16 * hexDigitValue a + hexDigitValue b = 0 \<longleftrightarrow>
      hexDigitValue a = 0 \<and> hexDigitValue b = 0"
    using isHexDigit_cases(1,2) [OF assms(1)] isHexDigit_cases(1,2) [OF assms(2)] by arith
  then show "16 * hexDigitValue a + hexDigitValue b = 0 \<longleftrightarrow>
      toUpperChar a = CHR ''0'' \<and> toUpperChar b = CHR ''0''"
    by (simp add: isHexDigit_cases(4) assms)
qed

lemma toUpperChar_hash: "toUpperChar CHR ''#'' = CHR ''#''"
  by (simp add: toUpperChar_def)

lemma accepted_white_black:
  assumes "hexToRgb hex = Some c"
  shows "rgb_r c = 255 \<and> rgb_g c = 255 \<and> rgb_b c = 255 \<longleftrightarrow>
      toUpperCase hex = ''FFFFFF'' \<or> toUpperCase hex = ''#FFFFFF''"
    and "rgb_r c = 0 \<and> rgb_g c = 0 \<and> rgb_b c = 0 \<longleftrightarrow>
      toUpperCase hex = ''000000'' \<or> toUpperCase hex = ''#000000''"
proof -
  from assms obtain d1 d2 d3 d4 d5 d6 where
    hex: "hex = [d1, d2, d3, d4, d5, d6] \<or> hex = CHR ''#'' # [d1, d2, d3, d4, d5, d6]"
    and digits: "list_all isHexDigit [d1, d2, d3, d4, d5, d6]"
    and c: "c = \<lparr>rgb_r = 16 * hexDigitValue d1 + hexDigitValue d2,
          rgb_g = 16 * hexDigitValue d3 + hexDigitValue d4,
          rgb_b = 16 * hexDigitValue d5 + hexDigitValue d6\<rparr>"
    by (rule hexToRgb_SomeD)
  have d: "isHexDigit d1" "isHexDigit d2" "isHexDigit d3" "isHexDigit d4" "isHexDigit d5"
    "isHexDigit d6"
    using digits by simp_all
  show "rgb_r c = 255 \<and> rgb_g c = 255 \<and> rgb_b c = 255 \<longleftrightarrow>
      toUpperCase hex = ''FFFFFF'' \<or> toUpperCase hex = ''#FFFFFF''"
    using hex
    by (auto simp: c toUpperCase_def toUpperChar_hash pair_value_extremes(1) d)
  show "rgb_r c = 0 \<and> rgb_g c = 0 \<and> rgb_b c = 0 \<longleftrightarrow>
      toUpperCase hex = ''000000'' \<or> toUpperCase hex = ''#000000''"
    using hex
    by (auto simp: c toUpperCase_def toUpperChar_hash pair_value_extremes(2) d)
qed

lemma determineGrade_exact_0:
  "info_grade (determineGrade l) = 0 \<and> info_exact (determineGrade l) \<longleftrightarrow> l = 1"
  by (auto simp: determineGrade_def LUMINANCE_RANGES_values split: option.splits prod.splits if_splits)

lemma determineGrade_exact_100:
  "info_grade (determineGrade l) = 100 \<and> info_exact (determineGrade l) \<longleftrightarrow> l = 0"
  by (auto simp: determineGrade_def LUMINANCE_RANGES_values split: option.splits prod.splits if_splits)

text \<open>
  Claim C3, as amended. For every input that \<^verbatim>\<open>hexToRgb\<close> accepts, the entry of grade 0
  has luminance 1.0 and the entry of grade 100 has luminance 0.0. The colour of grade 0 is
  \<^verbatim>\<open>#FFFFFF\<close> and the colour of grade 100 is \<^verbatim>\<open>#000000\<close>, except that a white input
  written without \<^verbatim>\<open>#\<close> gives \<^verbatim>\<open>FFFFFF\<close> and a black input written without
  \<^verbatim>\<open>#\<close> gives \<^verbatim>\<open>000000\<close>.
\<close>

theorem generatePalette_extreme_entries:
  assumes "hexToRgb hexColor \<noteq> None"
  shows
    "map_option entry_color (entryOfGrade 0 (result_palette (generatePalette hexColor))) =
       Some (if toUpperCase hexColor = ''FFFFFF'' then ''FFFFFF'' else ''#FFFFFF'') \<and>
     map_option entry_luminance (entryOfGrade 0 (result_palette (generatePalette hexColor))) =
       Some 1.0 \<and>
     map_option entry_color (entryOfGrade 100 (result_palette (generatePalette hexColor))) =
       Some (if toUpperCase hexColor = ''000000'' then ''000000'' else ''#000000'') \<and>
     map_option entry_luminance (entryOfGrade 100 (result_palette (generatePalette hexColor))) =
       Some 0.0"
proof -
  from assms obtain c where c: "hexToRgb hexColor = Some c" by auto
  define L where "L = calculateLuminance (rgb_r c) (rgb_g c) (rgb_b c)"
  note ch = hexToRgb_channels [OF c]
  have white: "L = 1 \<longleftrightarrow> toUpperCase hexColor = ''FFFFFF'' \<or> toUpperCase hexColor = ''#FFFFFF''"
    unfolding L_def calculateLuminance_extremes(1) [OF ch] by (rule accepted_white_black(1) [OF c])
  have black: "L = 0 \<longleftrightarrow> toUpperCase hexColor = ''000000'' \<or> toUpperCase hexColor = ''#000000''"
    unfolding L_def calculateLuminance_extremes(2) [OF ch] by (rule accepted_white_black(2) [OF c])
  have e0: "entryOfGrade 0 (result_palette (generatePalette hexColor)) =
      Some (if L = 1
        then \<lparr>entry_grade = 0, entry_color = toUpperCase hexColor, entry_luminance = L,
               entry_isInputColor = True\<rparr>
        else \<lparr>entry_grade = 0, entry_color = ''#FFFFFF'', entry_luminance = 1.000,
               entry_isInputColor = False\<rparr>)"
    using determineGrade_exact_0 [of L]
    by (auto simp: entryOfGrade_accepted [OF c] find_grade_0 paletteEntry_def L_def [symmetric])
  have e100: "entryOfGrade 100 (result_palette (generatePalette hexColor)) =
      Some (if L = 0
        then \<lparr>entry_grade = 100, entry_color = toUpperCase hexColor, entry_luminance = L,
               entry_isInputColor = True\<rparr>
        else \<lparr>entry_grade = 100, entry_color = ''#000000'', entry_luminance = 0.000,
               entry_isInputColor = False\<rparr>)"
    using determineGrade_exact_100 [of L]
    by (auto simp: entryOfGrade_accepted [OF c] find_grade_100 paletteEntry_def L_def [symmetric])
  show ?thesis
    unfolding e0 e100 using white black by auto
qed

theorem generatePalette_extreme_entries_witness:
  "hexToRgb ''#7BC4E8'' \<noteq> None \<and>
   map_option entry_color (entryOfGrade 0 (result_palette (generatePalette ''#7BC4E8''))) =
     Some ''#FFFFFF'' \<and>
   map_option entry_luminance (entryOfGrade 0 (result_palette (generatePalette ''#7BC4E8''))) =
     Some 1.0 \<and>
   map_option entry_color (entryOfGrade 100 (result_palette (generatePalette ''#7BC4E8''))) =
     Some ''#000000'' \<and>
   map_option entry_luminance (entryOfGrade 100 (result_palette (generatePalette ''#7BC4E8''))) =
     Some 0.0"
proof -
  have ok: "hexToRgb ''#7BC4E8'' \<noteq> None"
    by (simp add: hexToRgb_sample)
  have "toUpperCase ''#7BC4E8'' \<noteq> ''FFFFFF''" "toUpperCase ''#7BC4E8'' \<noteq> ''000000''"
    by (simp_all add: toUpperCase_def)
  then show ?thesis
    using ok generatePalette_extreme_entries [OF ok] by simp
qed

subsection \<open>Neighbouring grades\<close>

lemma sortedRanges_eq: "sortedRanges = LUMINANCE_RANGES"
  by (simp add: sortedRanges_def LUMINANCE_RANGES_values)

lemma neighborLoop_found:
  assumes "i \<le> k" "k < length ranges" "luminance > range_min (ranges ! k)"
  shows "\<exists>j. i \<le> j \<and> j \<le> k \<and> neighborLoop luminance ranges i =
    (Some (range_grade (ranges ! j)),
     if j > 0 then Some (range_grade (ranges ! (j - 1))) else None) \<and>
    luminance > range_min (ranges ! j)"
  using assms
proof (induction luminance ranges i rule: neighborLoop.induct)
  case (1 luminance ranges i)
  have i: "i < length ranges" using "1.prems" by simp
  show ?case
  proof (cases "luminance > range_min (ranges ! i)")
    case True
    then have "neighborLoop luminance ranges i =
      (Some (range_grade (ranges ! i)),
       if i > 0 then Some (range_grade (ranges ! (i - 1))) else None)"
      using i by (subst neighborLoop.simps) simp
    then show ?thesis using True "1.prems" by blast
  next
    case False
    then have "i \<noteq> k" using "1.prems" by auto
    then have "i + 1 \<le> k" using "1.prems" by simp
    from "1.IH" [OF i _ this "1.prems"(2,3)] False
    obtain j where "i + 1 \<le> j" "j \<le> k"
      "neighborLoop luminance ranges (i + 1) =
        (Some (range_grade (ranges ! j)),
         if j > 0 then Some (range_grade (ranges ! (j - 1))) else None)"
      "luminance > range_min (ranges ! j)"
      by auto
    moreover have "neighborLoop luminance ranges i = neighborLoop luminance ranges (i + 1)"
      using i False by (subst neighborLoop.simps) simp
    ultimately show ?thesis
      by (intro exI [of _ j]) simp
  qed
qed

lemma neighborLoop_table:
  assumes "0 < luminance" "luminance < 1"
  shows "\<exists>lowerGrade higherGrade.
    neighborLoop luminance sortedRanges 0 = (Some lowerGrade, Some higherGrade)"
proof -
  have "(11::nat) < length sortedRanges" "luminance > range_min (sortedRanges ! 11)"
    using assms by (simp_all add: sortedRanges_eq LUMINANCE_RANGES_values)
  from neighborLoop_found [OF _ this, of 0]
  obtain j where j: "neighborLoop luminance sortedRanges 0 =
      (Some (range_grade (sortedRanges ! j)),
       if j > 0 then Some (range_grade (sortedRanges ! (j - 1))) else None)"
    "luminance > range_min (sortedRanges ! j)"
    by auto
  have "j \<noteq> 0"
  proof
    assume "j = 0"
    with j(2) have "1 < luminance"
      by (simp add: sortedRanges_eq LUMINANCE_RANGES_values)
    with assms show False by simp
  qed
  then show ?thesis using j(1) by simp
qed

text \<open>
  Claim C10. For a luminance strictly between 0 and 1 that \<^verbatim>\<open>determineGrade\<close> does not
  match exactly, the loop of \<^verbatim>\<open>findNeighboringGrades\<close> itself finds both neighbours (the
  fallback for a missing lower grade is not taken), both fields of the result are non-null,
  and the warning names the two neighbours.
\<close>

theorem determineGrade_neighbors:
  assumes "0 < luminance" "luminance < 1" "info_exact (determineGrade luminance) = False"
  shows "\<exists>lowerGrade higherGrade.
    neighborLoop luminance sortedRanges 0 = (Some lowerGrade, Some higherGrade) \<and>
    findNeighboringGrades luminance = (Some lowerGrade, Some higherGrade) \<and>
    info_lowerGrade (determineGrade luminance) = Some (Some lowerGrade) \<and>
    info_higherGrade (determineGrade luminance) = Some (Some higherGrade) \<and>
    warningNamesNeighbors (determineGrade luminance)"
proof -
  from neighborLoop_table [OF assms(1,2)] obtain lowerGrade higherGrade where
    loop: "neighborLoop luminance sortedRanges 0 = (Some lowerGrade, Some higherGrade)"
    by blast
  then have fn: "findNeighboringGrades luminance = (Some lowerGrade, Some higherGrade)"
    by (simp add: findNeighboringGrades_def)
  have "exactLoop luminance LUMINANCE_RANGES = None"
    using assms(3) by (simp add: determineGrade_def split: option.splits)
  then have "info_lowerGrade (determineGrade luminance) = Some (Some lowerGrade)"
    "info_higherGrade (determineGrade luminance) = Some (Some higherGrade)"
    using fn by (simp_all add: determineGrade_def split: prod.splits)
  with loop fn show ?thesis by (auto simp: warningNamesNeighbors_def)
qed

lemma determineGrade_sample: "info_exact (determineGrade 0.7) = False"
  by (simp add: determineGrade_def LUMINANCE_RANGES_values split: prod.splits)

theorem determineGrade_neighbors_witness:
  "(0::real) < 0.7 \<and> (0.7::real) < 1 \<and> info_exact (determineGrade 0.7) = False \<and>
   (\<exists>lowerGrade higherGrade.
      neighborLoop 0.7 sortedRanges 0 = (Some lowerGrade, Some higherGrade) \<and>
      findNeighboringGrades 0.7 = (Some lowerGrade, Some higherGrade) \<and>
      info_lowerGrade (determineGrade 0.7) = Some (Some lowerGrade) \<and>
      info_higherGrade (determineGrade 0.7) = Some (Some higherGrade) \<and>
      warningNamesNeighbors (determineGrade 0.7))"
  using determineGrade_neighbors [of "0.7"] determineGrade_sample by simp

subsection \<open>Classification of a luminance\<close>

lemma exactLoop_None_iff:
  "exactLoop luminance ranges = None \<longleftrightarrow> (\<forall>rng\<in>set ranges. \<not> inBand luminance rng)"
  by (induction ranges) (auto simp: inBand_def)

lemma exactLoop_SomeD:
  "exactLoop luminance ranges = Some g \<Longrightarrow>
    \<exists>rng\<in>set ranges. inBand luminance rng \<and> g = range_grade rng"
  by (induction ranges) (auto simp: inBand_def split: if_splits)

lemma bands_descend:
  "sorted_wrt (\<lambda>a b. range_max b < range_min a) LUMINANCE_RANGES"
  by (simp add: LUMINANCE_RANGES_values)

lemma bands_well_formed:
  "\<forall>rng\<in>set LUMINANCE_RANGES. range_min rng \<le> range_max rng"
  by (simp add: LUMINANCE_RANGES_values)

lemma sorted_wrt_disjoint:
  assumes "sorted_wrt (\<lambda>a b. range_max b < range_min a) ranges"
    and "a \<in> set ranges" "b \<in> set ranges" "inBand luminance a" "inBand luminance b"
  shows "a = b"
  using assms
proof (induction ranges)
  case Nil
  then show ?case by simp
next
  case (Cons x xs)
  then show ?case by (fastforce simp: inBand_def)
qed

lemma exactLoop_in_band:
  assumes "rng \<in> set LUMINANCE_RANGES" "inBand luminance rng"
  shows "exactLoop luminance LUMINANCE_RANGES = Some (range_grade rng)"
proof -
  have "exactLoop luminance LUMINANCE_RANGES \<noteq> None"
    using assms by (auto simp: exactLoop_None_iff)
  then obtain g where g: "exactLoop luminance LUMINANCE_RANGES = Some g" by auto
  then obtain rng' where "rng' \<in> set LUMINANCE_RANGES" "inBand luminance rng'"
    "g = range_grade rng'"
    using exactLoop_SomeD by blast
  moreover from this assms have "rng' = rng"
    using sorted_wrt_disjoint [OF bands_descend] by blast
  ultimately show ?thesis using g by simp
qed

lemma closestLoop_result:
  assumes "closestLoop luminance ranges (g0, d0) = (g, d)"
  shows "(g = g0 \<and> d = d0 \<and> (\<forall>rng\<in>set ranges. d0 \<le> midpointDistance luminance rng)) \<or>
    (\<exists>i<length ranges. g = range_grade (ranges ! i) \<and>
       d = midpointDistance luminance (ranges ! i) \<and> d < d0 \<and>
       (\<forall>j<length ranges. d \<le> midpointDistance luminance (ranges ! j)) \<and>
       (\<forall>j<i. d < midpointDistance luminance (ranges ! j)))"
  using assms
proof (induction ranges arbitrary: g0 d0)
  case Nil
  then show ?case by simp
next
  case (Cons x xs)
  let ?dx = "midpointDistance luminance x"
  show ?case
  proof (cases "?dx < d0")
    case True
    then have rec: "closestLoop luminance xs (range_grade x, ?dx) = (g, d)"
      using Cons.prems by (simp add: midpointDistance_def Let_def)
    from Cons.IH [OF rec] show ?thesis
    proof
      assume keep: "g = range_grade x \<and> d = ?dx \<and>
        (\<forall>rng\<in>set xs. ?dx \<le> midpointDistance luminance rng)"
      have "\<forall>j<length (x # xs). d \<le> midpointDistance luminance ((x # xs) ! j)"
      proof (intro allI impI)
        fix j assume "j < length (x # xs)"
        then show "d \<le> midpointDistance luminance ((x # xs) ! j)"
          using keep by (cases j) auto
      qed
      then have "0 < length (x # xs) \<and> g = range_grade ((x # xs) ! 0) \<and>
        d = midpointDistance luminance ((x # xs) ! 0) \<and> d < d0 \<and>
        (\<forall>j<length (x # xs). d \<le> midpointDistance luminance ((x # xs) ! j)) \<and>
        (\<forall>j<0. d < midpointDistance luminance ((x # xs) ! j))"
        using keep True by simp
      then show ?thesis by blast
    next
      assume "\<exists>i<length xs. g = range_grade (xs ! i) \<and>
        d = midpointDistance luminance (xs ! i) \<and> d < ?dx \<and>
        (\<forall>j<length xs. d \<le> midpointDistance luminance (xs ! j)) \<and>
        (\<forall>j<i. d < midpointDistance luminance (xs ! j))"
      then obtain i where i: "i < length xs" "g = range_grade (xs ! i)"
        "d = midpointDistance luminance (xs ! i)" "d < ?dx"
        "\<forall>j<length xs. d \<le> midpointDistance luminance (xs ! j)"
        "\<forall>j<i. d < midpointDistance luminance (xs ! j)"
        by blast
      have a: "\<forall>j<length (x # xs). d \<le> midpointDistance luminance ((x # xs) ! j)"
      proof (intro allI impI)
        fix j assume "j < length (x # xs)"
        then show "d \<le> midpointDistance luminance ((x # xs) ! j)"
          using i by (cases j) auto
      qed
      have b: "\<forall>j<Suc i. d < midpointDistance luminance ((x # xs) ! j)"
      proof (intro allI impI)
        fix j assume "j < Suc i"
        then show "d < midpointDistance luminance ((x # xs) ! j)"
          using i by (cases j) auto
      qed
      have "Suc i < length (x # xs) \<and> g = range_grade ((x # xs) ! Suc i) \<and>
        d = midpointDistance luminance ((x # xs) ! Suc i) \<and> d < d0"
        using i True by simp
      with a b show ?thesis by blast
    qed
  next
    case False
    then have rec: "closestLoop luminance xs (g0, d0) = (g, d)"
      using Cons.prems by (simp add: midpointDistance_def Let_def)
    from Cons.IH [OF rec] show ?thesis
    proof
      assume "g = g0 \<and> d = d0 \<and> (\<forall>rng\<in>set xs. d0 \<le> midpointDistance luminance rng)"
      then show ?thesis using False by auto
    next
      assume "\<exists>i<length xs. g = range_grade (xs ! i) \<and>
        d = midpointDistance luminance (xs ! i) \<and> d < d0 \<and>
        (\<forall>j<length xs. d \<le> midpointDistance luminance (xs ! j)) \<and>
        (\<forall>j<i. d < midpointDistance luminance (xs ! j))"
      then obtain i where i: "i < length xs" "g = range_grade (xs ! i)"
        "d = midpointDistance luminance (xs ! i)" "d < d0"
        "\<forall>j<length xs. d \<le> midpointDistance luminance (xs ! j)"
        "\<forall>j<i. d < midpointDistance luminance (xs ! j)"
        by blast
      have a: "\<forall>j<length (x # xs). d \<le> midpointDistance luminance ((x # xs) ! j)"
      proof (intro allI impI)
        fix j assume "j < length (x # xs)"
        then show "d \<le> midpointDistance luminance ((x # xs) ! j)"
          using i False by (cases j) auto
      qed
      have b: "\<forall>j<Suc i. d < midpointDistance luminance ((x # xs) ! j)"
      proof (intro allI impI)
        fix j assume "j < Suc i"
        then show "d < midpointDistance luminance ((x # xs) ! j)"
          using i False by (cases j) auto
      qed
      have "Suc i < length (x # xs) \<and> g = range_grade ((x # xs) ! Suc i) \<and>
        d = midpointDistance luminance ((x # xs) ! Suc i) \<and> d < d0"
        using i by simp
      with a b show ?thesis by blast
    qed
  qed
qed

text \<open>
  One turn of the second loop without its local bindings, and the facts that evaluate
  \<^verbatim>\<open>determineGrade\<close> at a given luminance (used in place of the second equation of
  \<open>closestLoop\<close>).
\<close>

lemma closestLoop_step:
  "closestLoop luminance (rng # rest) (closestGrade, minDifference) =
    (if midpointDistance luminance rng < minDifference
     then closestLoop luminance rest (range_grade rng, midpointDistance luminance rng)
     else closestLoop luminance rest (closestGrade, minDifference))"
  by (simp add: midpointDistance_def Let_def)

lemmas determineGrade_eval =
  determineGrade_def LUMINANCE_RANGES_values findNeighboringGrades_def sortedRanges_eq
  neighborLoop.simps closestLoop_step midpointDistance_def binary64_eval MAX_VALUE_def

lemma MAX_VALUE_gt_2: "2 < MAX_VALUE"
  by (simp add: MAX_VALUE_def)

lemma ulpSearch_le:
  "0 \<le> u \<Longrightarrow> x < 2 \<Longrightarrow> ulpSearch fuel x u \<le> u"
proof (induction fuel x u rule: ulpSearch.induct)
  case (1 fuel x u)
  show ?case
  proof (cases "fuel = 0 \<or> \<not> x < 1")
    case True
    then show ?thesis using "1.prems" by (subst ulpSearch.simps) auto
  next
    case False
    then have "ulpSearch fuel x u = ulpSearch (fuel - 1) (2 * x) (u / 2)"
      using "1.prems" by (subst ulpSearch.simps) simp
    moreover have "ulpSearch (fuel - 1) (2 * x) (u / 2) \<le> u / 2"
      using False "1.prems" by (intro "1.IH"(2)) simp_all
    ultimately show ?thesis using "1.prems" by simp
  qed
qed

lemma roundHalfEven_error: "\<bar>of_int (roundHalfEven y) - y\<bar> \<le> 1 / 2"
proof -
  have "of_int \<lfloor>y\<rfloor> \<le> y" "y < of_int \<lfloor>y\<rfloor> + 1"
    by linarith+
  then show ?thesis
    by (auto simp: roundHalfEven_def Let_def)
qed

lemma binary64_error:
  assumes "\<bar>x\<bar> < 2"
  shows "\<bar>binary64 x - x\<bar> \<le> 1 / 2 ^ 53"
proof (cases "x = 0")
  case True
  then show ?thesis by (simp add: binary64_def)
next
  case False
  define u where "u = max (ulpSearch 1100 \<bar>x\<bar> (1 / 2 ^ 52)) (1 / 2 ^ 1074)"
  have "ulpSearch 1100 \<bar>x\<bar> (1 / 2 ^ 52) \<le> 1 / 2 ^ 52"
    using assms by (intro ulpSearch_le) simp_all
  moreover have "(1::real) / 2 ^ 1074 \<le> 1 / 2 ^ 52"
    by (simp add: field_simps)
  ultimately have u: "0 < u" "u \<le> 1 / 2 ^ 52"
    by (simp_all add: u_def less_max_iff_disj)
  have b: "binary64 x = of_int (roundHalfEven (x / u)) * u"
    using False by (simp add: binary64_def Let_def u_def)
  have "binary64 x - x = (of_int (roundHalfEven (x / u)) - x / u) * u"
    using u(1) by (simp add: b algebra_simps)
  then have "\<bar>binary64 x - x\<bar> = \<bar>of_int (roundHalfEven (x / u)) - x / u\<bar> * u"
    using u(1) by (simp add: abs_mult)
  also have "\<dots> \<le> (1 / 2) * u"
    using roundHalfEven_error [of "x / u"] u(1) by (intro mult_right_mono) simp_all
  also have "\<dots> \<le> (1 / 2) * (1 / 2 ^ 52)"
    using u(2) by simp
  finally show ?thesis by simp
qed

lemma first_midpoint: "binary64 (binary64 2 / 2) = 1"
  by (simp add: binary64_eval)

lemma first_distance:
  assumes "0 \<le> luminance" "luminance \<le> 1"
  shows "midpointDistance luminance (LUMINANCE_RANGES ! 0) < MAX_VALUE"
proof -
  have "\<bar>luminance - 1\<bar> < 2" using assms by simp
  from binary64_error [OF this] have "\<bar>binary64 (luminance - 1)\<bar> \<le> 1 + 1 / 2 ^ 53"
    using assms by linarith
  also have "\<dots> < 2" by simp
  finally have "\<bar>binary64 (luminance - 1)\<bar> < MAX_VALUE"
    using MAX_VALUE_gt_2 by simp
  then show ?thesis
    by (simp add: LUMINANCE_RANGES_values midpointDistance_def first_midpoint)
qed

text \<open>
  Claim C2. If the luminance lies within a band of the table, \<^verbatim>\<open>determineGrade\<close>
  returns the grade of that band as an exact match. Otherwise the match is not exact and the
  grade is that of the band whose midpoint has the smallest absolute difference from the
  luminance, the earliest band of the table among those with the same difference. The
  bounds of a band are the doubles of the table, and the difference is the one the code
  computes and compares: the value of \<^verbatim>\<open>Math.abs(luminance - midRange)\<close> as a double. A
  luminance is a number between 0 and 1.
\<close>

theorem determineGrade_classifies:
  assumes "0 \<le> luminance" "luminance \<le> 1"
  shows
    "(\<forall>rng\<in>set LUMINANCE_RANGES. inBand luminance rng \<longrightarrow>
        determineGrade luminance =
          \<lparr>info_grade = range_grade rng, info_exact = True, info_lowerGrade = None,
           info_higherGrade = None\<rparr>) \<and>
     ((\<forall>rng\<in>set LUMINANCE_RANGES. \<not> inBand luminance rng) \<longrightarrow>
        info_exact (determineGrade luminance) = False \<and>
        (\<exists>i<length LUMINANCE_RANGES.
           info_grade (determineGrade luminance) = range_grade (LUMINANCE_RANGES ! i) \<and>
           (\<forall>j<length LUMINANCE_RANGES.
              midpointDistance luminance (LUMINANCE_RANGES ! i)
                \<le> midpointDistance luminance (LUMINANCE_RANGES ! j)) \<and>
           (\<forall>j<i. midpointDistance luminance (LUMINANCE_RANGES ! i)
                < midpointDistance luminance (LUMINANCE_RANGES ! j))))"
proof (intro conjI ballI impI)
  fix rng
  assume "rng \<in> set LUMINANCE_RANGES" "inBand luminance rng"
  then show "determineGrade luminance =
      \<lparr>info_grade = range_grade rng, info_exact = True, info_lowerGrade = None,
       info_higherGrade = None\<rparr>"
    by (simp add: determineGrade_def exactLoop_in_band)
next
  assume none: "\<forall>rng\<in>set LUMINANCE_RANGES. \<not> inBand luminance rng"
  then have ex: "exactLoop luminance LUMINANCE_RANGES = None"
    by (simp add: exactLoop_None_iff)
  then show "info_exact (determineGrade luminance) = False"
    by (simp add: determineGrade_def split: prod.splits)
  obtain g d where gd: "closestLoop luminance LUMINANCE_RANGES (50, MAX_VALUE) = (g, d)"
    by (cases "closestLoop luminance LUMINANCE_RANGES (50, MAX_VALUE)") auto
  have grade: "info_grade (determineGrade luminance) = g"
    using ex gd by (simp add: determineGrade_def split: prod.splits)
  note first = first_distance [OF assms]
  have "\<not> (\<forall>rng\<in>set LUMINANCE_RANGES. MAX_VALUE \<le> midpointDistance luminance rng)"
  proof
    assume "\<forall>rng\<in>set LUMINANCE_RANGES. MAX_VALUE \<le> midpointDistance luminance rng"
    moreover have "LUMINANCE_RANGES ! 0 \<in> set LUMINANCE_RANGES"
      by (simp add: LUMINANCE_RANGES_def)
    ultimately show False using first by fastforce
  qed
  with closestLoop_result [OF gd]
  obtain i where "i < length LUMINANCE_RANGES" "g = range_grade (LUMINANCE_RANGES ! i)"
    "d = midpointDistance luminance (LUMINANCE_RANGES ! i)"
    "\<forall>j<length LUMINANCE_RANGES. d \<le> midpointDistance luminance (LUMINANCE_RANGES ! j)"
    "\<forall>j<i. d < midpointDistance luminance (LUMINANCE_RANGES ! j)"
    by blast
  then show "\<exists>i<length LUMINANCE_RANGES.
      info_grade (determineGrade luminance) = range_grade (LUMINANCE_RANGES ! i) \<and>
      (\<forall>j<length LUMINANCE_RANGES.
         midpointDistance luminance (LUMINANCE_RANGES ! i)
           \<le> midpointDistance luminance (LUMINANCE_RANGES ! j)) \<and>
      (\<forall>j<i. midpointDistance luminance (LUMINANCE_RANGES ! i)
           < midpointDistance luminance (LUMINANCE_RANGES ! j))"
    using grade by blast
qed

lemma no_band_sample: "\<forall>rng\<in>set LUMINANCE_RANGES. \<not> inBand 0.6875 rng"
  by (simp add: LUMINANCE_RANGES_values inBand_def)

lemma band_sample:
  "LUMINANCE_RANGES ! 1 \<in> set LUMINANCE_RANGES \<and> inBand 0.875 (LUMINANCE_RANGES ! 1) \<and>
   range_grade (LUMINANCE_RANGES ! 1) = 5"
  by (simp add: LUMINANCE_RANGES_values inBand_def)

theorem determineGrade_classifies_witness:
  "(0::real) \<le> 0.875 \<and> (0.875::real) \<le> 1 \<and> (0::real) \<le> 0.6875 \<and> (0.6875::real) \<le> 1 \<and>
   determineGrade 0.875 =
     \<lparr>info_grade = 5, info_exact = True, info_lowerGrade = None, info_higherGrade = None\<rparr> \<and>
   info_exact (determineGrade 0.6875) = False \<and>
   (\<exists>i<length LUMINANCE_RANGES.
      info_grade (determineGrade 0.6875) = range_grade (LUMINANCE_RANGES ! i) \<and>
      (\<forall>j<length LUMINANCE_RANGES.
         midpointDistance 0.6875 (LUMINANCE_RANGES ! i)
           \<le> midpointDistance 0.6875 (LUMINANCE_RANGES ! j)) \<and>
      (\<forall>j<i. midpointDistance 0.6875 (LUMINANCE_RANGES ! i)
           < midpointDistance 0.6875 (LUMINANCE_RANGES ! j)))"
proof -
  have a: "(0::real) \<le> 0.875" "(0.875::real) \<le> 1" and b: "(0::real) \<le> 0.6875" "(0.6875::real) \<le> 1"
    by simp_all
  have "determineGrade 0.875 =
     \<lparr>info_grade = range_grade (LUMINANCE_RANGES ! 1),
      info_exact = True, info_lowerGrade = None, info_higherGrade = None\<rparr>"
    using determineGrade_classifies [OF a, THEN conjunct1, THEN bspec,
        OF band_sample [THEN conjunct1], THEN mp, OF band_sample [THEN conjunct2, THEN conjunct1]] .
  then have p1: "determineGrade 0.875 =
     \<lparr>info_grade = 5, info_exact = True, info_lowerGrade = None, info_higherGrade = None\<rparr>"
    by (simp only: band_sample)
  note p2 = determineGrade_classifies [OF b, THEN conjunct2, THEN mp, OF no_band_sample]
  show ?thesis
    using a b p1 p2 by (intro conjI) (simp_all only: simp_thms)
qed

text \<open>
  The rounding decides the grade of these doubles. The double nearest to 0.4875 lies
  nearer to the midpoint of grade 30 than to that of grade 20, but the two differences
  round to the same double and the earlier band wins. The double nearest to 0.945 is nearer
  to the midpoint of grade 5 than to that of grade 0, though the two decimal differences
  are equal. The double nearest to 0.93 is the upper bound of the band of grade 5.
\<close>

lemma determineGrade_rounding_samples:
  "determineGrade (binary64 0.4875) =
     \<lparr>info_grade = 20, info_exact = False, info_lowerGrade = Some (Some 30),
      info_higherGrade = Some (Some 20)\<rparr>"
  "determineGrade (binary64 0.945) =
     \<lparr>info_grade = 5, info_exact = False, info_lowerGrade = Some (Some 5),
      info_higherGrade = Some (Some 0)\<rparr>"
  "determineGrade (binary64 0.93) =
     \<lparr>info_grade = 5, info_exact = True, info_lowerGrade = None, info_higherGrade = None\<rparr>"
  by (simp_all add: determineGrade_eval del: closestLoop.simps(2))

lemma rounding_tie:
  "midpointDistance (binary64 0.4875) (LUMINANCE_RANGES ! 3) =
     midpointDistance (binary64 0.4875) (LUMINANCE_RANGES ! 4)"
  "\<bar>binary64 0.4875 - 0.4\<bar> < \<bar>binary64 0.4875 - 0.575\<bar>"
  by (simp_all add: LUMINANCE_RANGES_values midpointDistance_def binary64_eval)

text \<open>The midpoint that the code computes for a band classifies as that band, exactly.\<close>

lemma midpoints_in_band:
  "\<forall>rng\<in>set LUMINANCE_RANGES.
     inBand (binary64 (binary64 (range_min rng + range_max rng) / 2)) rng"
  by (simp add: LUMINANCE_RANGES_values inBand_def binary64_eval)

lemma determineGrade_midpoints:
  "\<forall>rng\<in>set LUMINANCE_RANGES.
     determineGrade (binary64 (binary64 (range_min rng + range_max rng) / 2)) =
       \<lparr>info_grade = range_grade rng, info_exact = True, info_lowerGrade = None,
        info_higherGrade = None\<rparr>"
  using midpoints_in_band by (simp add: determineGrade_def exactLoop_in_band)

subsection \<open>The saturation curve\<close>

lemma blendedCurve_bounds:
  assumes "0 \<le> g" "g \<le> 100"
  shows "0 \<le> blendedCurve g" "blendedCurve g \<le> 1"
proof -
  define x where "x = real_of_int g / 100"
  have x: "0 \<le> x" "x \<le> 1" using assms by (simp_all add: x_def)
  have p: "0 \<le> x powr 1.6" "x powr 1.6 \<le> 1"
    using x by (simp_all add: powr_le1)
  have c: "0 \<le> x ^ 3" "x ^ 3 \<le> 1"
    using x by (simp_all add: power_le_one)
  show "0 \<le> blendedCurve g" "blendedCurve g \<le> 1"
    using p c unfolding blendedCurve_def x_def [symmetric] by simp_all
qed

lemma blendedCurve_source:
  "((real_of_int g / 100) powr 1.6 * 0.7) +
    (real_of_int g / 100 * (real_of_int g / 100) * (real_of_int g / 100) * 0.3) = blendedCurve g"
  by (simp add: blendedCurve_def power3_eq_cube)

text \<open>
  Claim C5. \<^verbatim>\<open>adjustSaturationForPastel\<close> returns 0 for the grades 0 and 100. For a grade
  strictly between them it returns \<open>min (max s 0.08 * (0.45 + 0.35 * b)) (0.4 + 0.3 * b)\<close>
  with \<open>b\<close> the blended curve of the grade; the multiplier lies in \<open>[0.45, 0.80]\<close> and the
  cap in \<open>[0.4, 0.7]\<close>.
\<close>

theorem adjustSaturationForPastel_formula:
  "(grade = 0 \<or> grade = 100 \<longrightarrow> adjustSaturationForPastel saturation luminance grade = 0) \<and>
   (0 < grade \<and> grade < 100 \<longrightarrow>
      adjustSaturationForPastel saturation luminance grade =
        min (max saturation 0.08 * (0.45 + 0.35 * blendedCurve grade))
            (0.4 + 0.3 * blendedCurve grade) \<and>
      0.45 \<le> 0.45 + 0.35 * blendedCurve grade \<and> 0.45 + 0.35 * blendedCurve grade \<le> 0.80 \<and>
      0.4 \<le> 0.4 + 0.3 * blendedCurve grade \<and> 0.4 + 0.3 * blendedCurve grade \<le> 0.7)"
proof (intro conjI impI)
  assume "grade = 0 \<or> grade = 100"
  then show "adjustSaturationForPastel saturation luminance grade = 0"
    by (auto simp: adjustSaturationForPastel_def)
next
  assume g: "0 < grade \<and> grade < 100"
  then show "adjustSaturationForPastel saturation luminance grade =
        min (max saturation 0.08 * (0.45 + 0.35 * blendedCurve grade))
            (0.4 + 0.3 * blendedCurve grade)"
    unfolding adjustSaturationForPastel_def Let_def blendedCurve_source [symmetric]
    by simp
  from g have b: "0 \<le> blendedCurve grade" "blendedCurve grade \<le> 1"
    by (simp_all add: blendedCurve_bounds)
  then show "0.45 \<le> 0.45 + 0.35 * blendedCurve grade"
    "0.45 + 0.35 * blendedCurve grade \<le> 0.80"
    "0.4 \<le> 0.4 + 0.3 * blendedCurve grade" "0.4 + 0.3 * blendedCurve grade \<le> 0.7"
    by simp_all
qed

theorem adjustSaturationForPastel_formula_witness:
  "adjustSaturationForPastel 0.5 0.6 100 = 0 \<and>
   adjustSaturationForPastel 0.5 0.6 50 =
     min (max 0.5 0.08 * (0.45 + 0.35 * blendedCurve 50)) (0.4 + 0.3 * blendedCurve 50) \<and>
   0.45 \<le> 0.45 + 0.35 * blendedCurve 50 \<and> 0.45 + 0.35 * blendedCurve 50 \<le> 0.80 \<and>
   0.4 \<le> 0.4 + 0.3 * blendedCurve 50 \<and> 0.4 + 0.3 * blendedCurve 50 \<le> 0.7"
  using adjustSaturationForPastel_formula [of 100 "0.5" "0.6"]
    adjustSaturationForPastel_formula [of 50 "0.5" "0.6"]
  by simp

subsection \<open>The range of the channels\<close>

lemma Math_round_255:
  assumes "0 \<le> x" "x \<le> 1"
  shows "0 \<le> Math_round (x * 255)" "Math_round (x * 255) \<le> 255"
proof -
  have "0 \<le> x * 255 + 1 / 2" using assms by simp
  then show "0 \<le> Math_round (x * 255)" by (simp add: Math_round_def)
  have "x * 255 + 1 / 2 < 256" using assms by simp
  then have "\<lfloor>x * 255 + 1 / 2\<rfloor> < 256" by (simp add: floor_less_iff)
  then show "Math_round (x * 255) \<le> 255" by (simp add: Math_round_def)
qed

lemma hue2rgb_bounds:
  assumes "p \<le> q" "- 1 \<le> t0"
  shows "p \<le> hue2rgb p q t0 \<and> hue2rgb p q t0 \<le> q"
proof -
  define t1 where "t1 = (if t0 < 0 then t0 + 1 else t0)"
  define t where "t = (if t1 > 1 then t1 - 1 else t1)"
  have t: "0 \<le> t" using assms(2) by (auto simp: t_def t1_def)
  have d: "0 \<le> q - p" using assms(1) by simp
  have val: "hue2rgb p q t0 =
    (if t < 1 / 6 then p + (q - p) * 6 * t
     else if t < 1 / 2 then q
     else if t < 2 / 3 then p + (q - p) * (2 / 3 - t) * 6
     else p)"
    by (simp add: hue2rgb_def Let_def t_def t1_def)
  consider (rise) "t < 1 / 6" | (top) "\<not> t < 1 / 6" "t < 1 / 2"
    | (fall) "\<not> t < 1 / 6" "\<not> t < 1 / 2" "t < 2 / 3"
    | (bottom) "\<not> t < 1 / 6" "\<not> t < 1 / 2" "\<not> t < 2 / 3"
    by blast
  then show ?thesis
  proof cases
    case rise
    define u where "u = 6 * t"
    have u: "0 \<le> u" "u \<le> 1" using t rise by (simp_all add: u_def)
    have "0 \<le> (q - p) * u" "(q - p) * u \<le> q - p"
      using d u by (simp_all add: mult_left_le)
    moreover have "hue2rgb p q t0 = p + (q - p) * u"
      using rise by (simp add: val u_def)
    ultimately show ?thesis by linarith
  next
    case top
    then show ?thesis using assms(1) by (simp add: val)
  next
    case fall
    define u where "u = (2 / 3 - t) * 6"
    have u: "0 \<le> u" "u \<le> 1" using fall by (simp_all add: u_def)
    have "0 \<le> (q - p) * u" "(q - p) * u \<le> q - p"
      using d u by (simp_all add: mult_left_le)
    moreover have "hue2rgb p q t0 = p + (q - p) * u"
      using fall by (simp add: val u_def)
    ultimately show ?thesis by linarith
  next
    case bottom
    then show ?thesis using assms(1) by (simp add: val)
  qed
qed

lemma hsl_pq_bounds:
  assumes "0 \<le> s" "s \<le> 1" "0 \<le> l" "l \<le> (1::real)"
  defines "q \<equiv> (if l < 0.5 then l * (1 + s) else l + s - l * s)"
  shows "0 \<le> 2 * l - q" "2 * l - q \<le> q" "q \<le> 1"
proof -
  have "0 \<le> l * s" "0 \<le> (1 - l) * (1 - s)" "0 \<le> l * (1 - s)" "0 \<le> (1 - l) * s"
    using assms(1-4) by simp_all
  then have ls: "0 \<le> l * s" "l * s \<le> l" "l * s \<le> s" "l + s - l * s \<le> 1"
    by (simp_all add: algebra_simps)
  show "0 \<le> 2 * l - q"
  proof (cases "l < 0.5")
    case True
    then show ?thesis using ls by (simp add: q_def algebra_simps)
  next
    case False
    then have "q = l + s - l * s" by (simp add: q_def)
    moreover have "s - l * s \<le> 1 - l" using ls by linarith
    ultimately show ?thesis using False by linarith
  qed
  show "2 * l - q \<le> q"
  proof (cases "l < 0.5")
    case True
    then have "q = l + l * s" by (simp add: q_def algebra_simps)
    then show ?thesis using ls by linarith
  next
    case False
    then have "q = l + s - l * s" by (simp add: q_def)
    then show ?thesis using ls by linarith
  qed
  show "q \<le> 1"
  proof (cases "l < 0.5")
    case True
    then have "q = l + l * s" by (simp add: q_def algebra_simps)
    then show ?thesis using ls True by linarith
  next
    case False
    then have "q = l + s - l * s" by (simp add: q_def)
    then show ?thesis using ls by linarith
  qed
qed

lemma hslToRgb_channels:
  assumes "0 \<le> h" "h \<le> 1" "0 \<le> s" "s \<le> 1" "0 \<le> l" "l \<le> 1"
  shows "0 \<le> rgb_r (hslToRgb h s l)" "rgb_r (hslToRgb h s l) \<le> 255"
    "0 \<le> rgb_g (hslToRgb h s l)" "rgb_g (hslToRgb h s l) \<le> 255"
    "0 \<le> rgb_b (hslToRgb h s l)" "rgb_b (hslToRgb h s l) \<le> 255"
proof -
  define q where "q = (if l < 0.5 then l * (1 + s) else l + s - l * s)"
  define p where "p = 2 * l - q"
  have pq: "0 \<le> p" "p \<le> q" "q \<le> 1"
    using hsl_pq_bounds [OF assms(3-6)] by (simp_all add: p_def q_def)
  have in01: "0 \<le> hue2rgb p q t0 \<and> hue2rgb p q t0 \<le> 1" if "- 1 \<le> t0" for t0
    using hue2rgb_bounds [OF pq(2) that] pq by linarith
  have r: "0 \<le> hue2rgb p q (h + 1 / 3) \<and> hue2rgb p q (h + 1 / 3) \<le> 1"
    and g: "0 \<le> hue2rgb p q h \<and> hue2rgb p q h \<le> 1"
    and b: "0 \<le> hue2rgb p q (h - 1 / 3) \<and> hue2rgb p q (h - 1 / 3) \<le> 1"
    using assms(1,2) by (simp_all add: in01)
  have val: "hslToRgb h s l =
    (if s = 0
     then \<lparr>rgb_r = Math_round (l * 255), rgb_g = Math_round (l * 255),
           rgb_b = Math_round (l * 255)\<rparr>
     else \<lparr>rgb_r = Math_round (hue2rgb p q (h + 1 / 3) * 255),
           rgb_g = Math_round (hue2rgb p q h * 255),
           rgb_b = Math_round (hue2rgb p q (h - 1 / 3) * 255)\<rparr>)"
    by (simp add: hslToRgb_def Let_def p_def q_def)
  show "0 \<le> rgb_r (hslToRgb h s l)" "rgb_r (hslToRgb h s l) \<le> 255"
    "0 \<le> rgb_g (hslToRgb h s l)" "rgb_g (hslToRgb h s l) \<le> 255"
    "0 \<le> rgb_b (hslToRgb h s l)" "rgb_b (hslToRgb h s l) \<le> 255"
    unfolding val using r g b assms(5,6) by (simp_all add: Math_round_255)
qed

lemma rgbToHex_upperHexColor:
  fixes r g b :: int
  assumes "0 \<le> r" "r \<le> 255" "0 \<le> g" "g \<le> 255" "0 \<le> b" "b \<le> 255"
  shows "upperHexColor (rgbToHex r g b)"
proof -
  have lt: "nat r div 16 < 16" "nat r mod 16 < 16" "nat g div 16 < 16" "nat g mod 16 < 16"
    "nat b div 16 < 16" "nat b mod 16 < 16"
    using assms by simp_all
  have up: "isUpperHexDigit (upperDigit d)" if "d < 16" for d
    using below_16_cases [OF that]
    by (elim disjE; simp add: upperDigit_def toUpperChar_def digitChar_def isUpperHexDigit_def)
  show ?thesis
    unfolding rgbToHex_bytes [OF assms] upperHexColor_def using lt by (simp add: up)
qed

text \<open>
  Claim C9. For hue, saturation and lightness in \<open>[0, 1]\<close>, every channel that
  \<^verbatim>\<open>hslToRgb\<close> returns is an integer between 0 and 255, and \<^verbatim>\<open>rgbToHex\<close> turns the three
  channels into \<^verbatim>\<open>#\<close> followed by six upper-case hexadecimal digits.
\<close>

theorem hslToRgb_in_range:
  assumes "0 \<le> h" "h \<le> 1" "0 \<le> s" "s \<le> 1" "0 \<le> l" "l \<le> 1"
  shows "0 \<le> rgb_r (hslToRgb h s l) \<and> rgb_r (hslToRgb h s l) \<le> 255 \<and>
    0 \<le> rgb_g (hslToRgb h s l) \<and> rgb_g (hslToRgb h s l) \<le> 255 \<and>
    0 \<le> rgb_b (hslToRgb h s l) \<and> rgb_b (hslToRgb h s l) \<le> 255 \<and>
    upperHexColor (rgbToHex (rgb_r (hslToRgb h s l)) (rgb_g (hslToRgb h s l))
      (rgb_b (hslToRgb h s l)))"
  using hslToRgb_channels [OF assms] rgbToHex_upperHexColor [OF hslToRgb_channels [OF assms]]
  by simp

theorem hslToRgb_in_range_witness:
  "(0::real) \<le> 0.55 \<and> (0.55::real) \<le> 1 \<and> (0::real) \<le> 0.4 \<and> (0.4::real) \<le> 1 \<and>
   (0::real) \<le> 0.6 \<and> (0.6::real) \<le> 1 \<and>
   0 \<le> rgb_r (hslToRgb 0.55 0.4 0.6) \<and> rgb_r (hslToRgb 0.55 0.4 0.6) \<le> 255 \<and>
   0 \<le> rgb_g (hslToRgb 0.55 0.4 0.6) \<and> rgb_g (hslToRgb 0.55 0.4 0.6) \<le> 255 \<and>
   0 \<le> rgb_b (hslToRgb 0.55 0.4 0.6) \<and> rgb_b (hslToRgb 0.55 0.4 0.6) \<le> 255 \<and>
   upperHexColor (rgbToHex (rgb_r (hslToRgb 0.55 0.4 0.6)) (rgb_g (hslToRgb 0.55 0.4 0.6))
     (rgb_b (hslToRgb 0.55 0.4 0.6)))"
  using hslToRgb_in_range [of "0.55" "0.4" "0.6"] by simp

subsection \<open>The bisection on the lightness\<close>

lemma searchLoop_bisection:
  assumes "iterations st \<le> maxIterations"
  shows "loopColor hue saturation (searchLoop hue saturation target tolerance st) =
      bisection (maxIterations - iterations st) hue saturation target tolerance
        (low st) (high st) (mid st) \<and>
    loopPasses (searchLoop hue saturation target tolerance st) \<le> maxIterations"
  using assms
proof (induction hue saturation target tolerance st rule: searchLoop.induct)
  case (1 hue saturation target tolerance st)
  show ?case
  proof (cases "iterations st < maxIterations")
    case False
    then have "iterations st = maxIterations" using "1.prems" by simp
    moreover have "searchLoop hue saturation target tolerance st = (None, st)"
      using False by (subst searchLoop.simps) simp
    ultimately show ?thesis by (simp add: loopColor_def loopPasses_def)
  next
    case True
    then obtain n where n: "maxIterations - iterations st = Suc n"
      by (cases "maxIterations - iterations st") auto
    define lum where "lum = luminanceAt hue saturation (mid st)"
    show ?thesis
    proof (cases "\<bar>lum - target\<bar> < tolerance")
      case close: True
      then have "searchLoop hue saturation target tolerance st =
          (Some (colorAt hue saturation (mid st)), st)"
        using True by (subst searchLoop.simps) (simp add: Let_def colorAt_def luminanceAt_def lum_def)
      then show ?thesis
        using close True n by (simp add: loopColor_def loopPasses_def lum_def)
    next
      case far: False
      define st1 where "st1 = (if lum > target then st\<lparr>high := mid st\<rparr> else st\<lparr>low := mid st\<rparr>)"
      define st2 where "st2 = st1\<lparr>mid := (low st1 + high st1) / 2, iterations := iterations st1 + 1\<rparr>"
      have step: "searchLoop hue saturation target tolerance st =
          searchLoop hue saturation target tolerance st2"
        using True far
        by (subst searchLoop.simps)
          (simp add: Let_def luminanceAt_def lum_def st1_def st2_def)
      have it: "iterations st2 = iterations st + 1"
        by (simp add: st2_def st1_def)
      then have le: "iterations st2 \<le> maxIterations" using True by simp
      have n2: "maxIterations - iterations st2 = n" using n it by simp
      have IH: "loopColor hue saturation (searchLoop hue saturation target tolerance st2) =
          bisection (maxIterations - iterations st2) hue saturation target tolerance
            (low st2) (high st2) (mid st2) \<and>
        loopPasses (searchLoop hue saturation target tolerance st2) \<le> maxIterations"
        using "1.IH" [OF True refl refl _ refl le [unfolded st2_def st1_def lum_def luminanceAt_def]] far
        unfolding st2_def st1_def lum_def luminanceAt_def by simp
      show ?thesis
      proof (cases "lum > target")
        case True
        then have eqs: "low st2 = low st" "high st2 = mid st"
          "mid st2 = (low st + mid st) / 2"
          by (simp_all add: st2_def st1_def)
        have "loopColor hue saturation (searchLoop hue saturation target tolerance st2) =
            bisection n hue saturation target tolerance (low st) (mid st)
              ((low st + mid st) / 2) \<and>
          loopPasses (searchLoop hue saturation target tolerance st2) \<le> maxIterations"
          using IH unfolding n2 eqs .
        then show ?thesis
          unfolding step n using far True by (simp add: lum_def)
      next
        case False
        then have eqs: "low st2 = mid st" "high st2 = high st"
          "mid st2 = (mid st + high st) / 2"
          by (simp_all add: st2_def st1_def)
        have "loopColor hue saturation (searchLoop hue saturation target tolerance st2) =
            bisection n hue saturation target tolerance (mid st) (high st)
              ((mid st + high st) / 2) \<and>
          loopPasses (searchLoop hue saturation target tolerance st2) \<le> maxIterations"
          using IH unfolding n2 eqs .
        then show ?thesis
          unfolding step n using far False by (simp add: lum_def)
      qed
    qed
  qed
qed

text \<open>
  Claim C4. The tolerance is 0.002 for a grade of at most 20 and 0.001 otherwise. The loop
  body runs at most 30 times, and the function returns what the bisection of the
  specification returns with 30 steps from the bounds 0 and 1 and the seeded midpoint: the
  colour of the first midpoint within the tolerance, or else the colour of the final
  midpoint. The model is total, so a colour is returned in every case.
\<close>

theorem generateColorWithLuminance_bisection:
  "searchTolerance grade = toleranceOfGrade grade \<and>
   maxIterations = 30 \<and>
   loopPasses (searchLoop hue
      (case grade of Some g \<Rightarrow> adjustSaturationForPastel saturation targetLuminance g
       | None \<Rightarrow> saturation)
      targetLuminance (searchTolerance grade)
      \<lparr>low = 0, high = 1, mid = initialMid targetLuminance, iterations = 0\<rparr>) \<le> 30 \<and>
   generateColorWithLuminance hue saturation targetLuminance grade =
     bisection 30 hue
       (case grade of Some g \<Rightarrow> adjustSaturationForPastel saturation targetLuminance g
        | None \<Rightarrow> saturation)
       targetLuminance (toleranceOfGrade grade) 0 1 (initialMid targetLuminance)"
proof -
  define sat where "sat = (case grade of
      Some g \<Rightarrow> adjustSaturationForPastel saturation targetLuminance g | None \<Rightarrow> saturation)"
  define st0 where "st0 = \<lparr>low = 0, high = 1, mid = initialMid targetLuminance, iterations = 0\<rparr>"
  have tol: "searchTolerance grade = toleranceOfGrade grade"
    by (simp add: searchTolerance_def toleranceOfGrade_def split: option.splits)
  have "iterations st0 \<le> maxIterations" by (simp add: st0_def)
  from searchLoop_bisection [OF this, of hue sat targetLuminance "searchTolerance grade"]
  have loop: "loopColor hue sat (searchLoop hue sat targetLuminance (searchTolerance grade) st0) =
      bisection 30 hue sat targetLuminance (toleranceOfGrade grade) 0 1
        (initialMid targetLuminance)"
    and passes: "loopPasses (searchLoop hue sat targetLuminance (searchTolerance grade) st0) \<le> 30"
    by (simp_all add: st0_def maxIterations_def tol)
  have "generateColorWithLuminance hue saturation targetLuminance grade =
      loopColor hue sat (searchLoop hue sat targetLuminance (searchTolerance grade) st0)"
    by (simp add: generateColorWithLuminance_def Let_def loopColor_def colorAt_def sat_def
        st0_def split: prod.splits option.splits)
  with loop passes tol show ?thesis
    unfolding sat_def st0_def by (simp add: maxIterations_def)
qed

end
